theory Spec2Isabelle
  imports Complex_Main "HOL-Library.Sublist"
begin

section \<open>Blood-donation backend: data model\<close>

text \<open>
  The embedding follows \<^verbatim>\<open>backend/server.py\<close>. Every handler is a function
  from the document store to a result and the store it leaves. A raised
  \<^verbatim>\<open>HTTPException\<close> (or a pydantic validation failure) is the \<open>Inl\<close> branch of
  the result. The values the handlers draw from outside (\<^verbatim>\<open>uuid.uuid4()\<close>,
  \<^verbatim>\<open>datetime.utcnow()\<close>, the bcrypt hash) are arguments, one per call in the
  source, so nothing is assumed about them: two readings of the clock in
  one handler are two arguments. In \<open>handle\<close> and \<open>run\<close> a request is
  handled from its first line to its last before the next one starts; the
  two halves of \<^verbatim>\<open>respond_to_alert\<close> are given apart as well, for requests
  that overlap.

  A \<^verbatim>\<open>datetime\<close> is the integer count of microseconds it stands for, a
  \<^verbatim>\<open>timedelta\<close> a difference of such counts; a stored date is the date
  that was written (the driver's rounding to milliseconds is left out).
  Strings are byte lists, floats are reals: the handlers compare a float
  with zero and do no arithmetic on it.
\<close>

type_synonym datetime = int

definition timedelta_hours :: "int \<Rightarrow> int" where
  "timedelta_hours h = h * 3600 * 1000000"

definition timedelta_days :: "int \<Rightarrow> int" where
  "timedelta_days d = d * 86400 * 1000000"

text \<open>
  A field of a stored document is absent, present with the value null, or
  present with a value. The distinction is kept for \<^verbatim>\<open>last_donation_date\<close>,
  the one field the source queries with \<^verbatim>\<open>$exists\<close>; the other optional
  fields are only ever read back through pydantic, which maps both absent
  and null to \<^verbatim>\<open>None\<close>, and are options.
\<close>

datatype 'a doc_field = Missing | Null | Val 'a

datatype geojson = Point "real list"

datatype http_error = HTTPException nat string | ValidationError

record UserRegistration =
  reg_email :: string
  reg_password :: string
  reg_name :: string
  reg_role :: string
  reg_phone :: "string option"
  reg_hospital_name :: "string option"
  reg_hospital_address :: "string option"
  reg_blood_type :: "string option"
  reg_city :: "string option"
  reg_latitude :: "real option"
  reg_longitude :: "real option"
  reg_last_donation_date :: "datetime option"

record UserLogin =
  l_email :: string
  l_password :: string

record User =
  u_id :: string
  u_email :: string
  u_name :: string
  u_role :: string
  u_phone :: "string option"
  u_hospital_name :: "string option"
  u_hospital_address :: "string option"
  u_blood_type :: "string option"
  u_city :: "string option"
  u_location :: "geojson option"
  u_last_donation_date :: "datetime option"
  u_is_available :: bool
  u_created_at :: datetime

text \<open>A document of the \<^verbatim>\<open>users\<close> collection, as \<^verbatim>\<open>register\<close> writes it.\<close>

record user_doc =
  d_email :: string
  d_password :: string
  d_name :: string
  d_role :: string
  d_phone :: "string option"
  d_hospital_name :: "string option"
  d_hospital_address :: "string option"
  d_blood_type :: "string option"
  d_city :: "string option"
  d_latitude :: "real option"
  d_longitude :: "real option"
  d_last_donation_date :: "datetime doc_field"
  d_id :: string
  d_created_at :: datetime
  d_is_available :: bool
  d_location :: "geojson option"

record BloodAlert =
  a_id :: string
  a_hospital_id :: string
  a_hospital_name :: string
  a_blood_type :: string
  a_units_needed :: int
  a_urgency_level :: string
  a_description :: "string option"
  a_location :: geojson
  a_radius_km :: real
  a_status :: string
  a_created_at :: datetime
  a_expires_at :: "datetime option"

record BloodAlertCreate =
  ac_blood_type :: string
  ac_units_needed :: int
  ac_urgency_level :: string
  ac_description :: "string option"
  ac_radius_km :: real

record DonorResponse =
  r_id :: string
  r_alert_id :: string
  r_donor_id :: string
  r_donor_name :: string
  r_donor_email :: string
  r_donor_phone :: "string option"
  r_response :: string
  r_message :: "string option"
  r_responded_at :: datetime

record DonorResponseCreate =
  rc_response :: string
  rc_message :: "string option"

record MockEmailNotification =
  e_id :: string
  e_to_email :: string
  e_to_name :: string
  e_subject :: string
  e_body :: string
  e_alert_id :: string
  e_sent_at :: datetime
  e_status :: string

text \<open>The four collections, each in insertion order.\<close>

record db =
  users :: "user_doc list"
  blood_alerts :: "BloodAlert list"
  donor_responses :: "DonorResponse list"
  email_notifications :: "MockEmailNotification list"

definition empty_db :: db where
  "empty_db = \<lparr>users = [], blood_alerts = [], donor_responses = [], email_notifications = []\<rparr>"

subsection \<open>The store's operations\<close>

text \<open>
  \<^verbatim>\<open>find_one\<close> returns the first document that matches, \<^verbatim>\<open>update_one\<close>
  changes the first document that matches and no other,
  \<^verbatim>\<open>find(q).to_list(n)\<close> returns the first \<open>n\<close> matches.
\<close>

definition find_one :: "('a \<Rightarrow> bool) \<Rightarrow> 'a list \<Rightarrow> 'a option" where
  "find_one q docs = find q docs"

fun update_one :: "('a \<Rightarrow> bool) \<Rightarrow> ('a \<Rightarrow> 'a) \<Rightarrow> 'a list \<Rightarrow> 'a list" where
  "update_one q upd [] = []"
| "update_one q upd (x # xs) = (if q x then upd x # xs else x # update_one q upd xs)"

definition find_to_list :: "('a \<Rightarrow> bool) \<Rightarrow> nat \<Rightarrow> 'a list \<Rightarrow> 'a list" where
  "find_to_list q n docs = take n (filter q docs)"

definition count_documents :: "('a \<Rightarrow> bool) \<Rightarrow> 'a list \<Rightarrow> nat" where
  "count_documents q docs = length (filter q docs)"

text \<open>
  \<^verbatim>\<open>{"f": {"$lt": d}}\<close> with a date \<open>d\<close> matches a document whose field is a
  date before \<open>d\<close>; an absent field and a null do not compare with a date.
  \<^verbatim>\<open>{"f": {"$exists": False}}\<close> matches a document that has no field
  \<open>f\<close>; a field holding null exists.
\<close>

fun field_lt :: "datetime doc_field \<Rightarrow> datetime \<Rightarrow> bool" where
  "field_lt (Val d) t = (d < t)"
| "field_lt Null t = False"
| "field_lt Missing t = False"

fun field_not_exists :: "'a doc_field \<Rightarrow> bool" where
  "field_not_exists Missing = True"
| "field_not_exists Null = False"
| "field_not_exists (Val v) = False"

fun field_value :: "'a doc_field \<Rightarrow> 'a option" where
  "field_value (Val v) = Some v"
| "field_value Null = None"
| "field_value Missing = None"

text \<open>\<^verbatim>\<open>User(**doc)\<close>: the model keeps its own fields and drops the others.\<close>

definition User_of_doc :: "user_doc \<Rightarrow> User" where
  "User_of_doc d =
     \<lparr>u_id = d_id d, u_email = d_email d, u_name = d_name d, u_role = d_role d,
      u_phone = d_phone d, u_hospital_name = d_hospital_name d,
      u_hospital_address = d_hospital_address d, u_blood_type = d_blood_type d,
      u_city = d_city d, u_location = d_location d,
      u_last_donation_date = field_value (d_last_donation_date d),
      u_is_available = d_is_available d, u_created_at = d_created_at d\<rparr>"

subsection \<open>Authentication\<close>

text \<open>
  A bearer token is what \<^verbatim>\<open>jwt.decode\<close> makes of it: a failure
  (\<^verbatim>\<open>PyJWTError\<close>: bad signature, expired) or the payload's \<^verbatim>\<open>sub\<close> entry.
\<close>

datatype token = InvalidToken | Payload "string option"

definition create_access_token :: "string \<Rightarrow> token" where
  "create_access_token sub = Payload (Some sub)"

definition get_current_user :: "db \<Rightarrow> token \<Rightarrow> http_error + User" where
  "get_current_user s credentials =
     (case credentials of
        InvalidToken \<Rightarrow> Inl (HTTPException 401 ''Invalid authentication credentials'')
      | Payload None \<Rightarrow> Inl (HTTPException 401 ''Invalid authentication credentials'')
      | Payload (Some email) \<Rightarrow>
          (case find_one (\<lambda>d. d_email d = email) (users s) of
             None \<Rightarrow> Inl (HTTPException 401 ''User not found'')
           | Some user \<Rightarrow> Inr (User_of_doc user)))"

subsection \<open>The mock e-mail\<close>

text \<open>
  \<^verbatim>\<open>str(n)\<close> for an integer and \<^verbatim>\<open>s.upper()\<close>. On the byte strings of
  this model \<open>upper\<close> changes the letters \<open>a\<close> to \<open>z\<close> and leaves every
  other byte: it is Python's \<^verbatim>\<open>str.upper\<close> on ASCII text only, and differs
  from it on letters beyond ASCII. It enters the body of the mail and nothing
  else; no property below says what a mail's body is.
\<close>

fun digits :: "nat \<Rightarrow> string" where
  "digits n = (if n < 10 then [char_of (48 + n)]
               else digits (n div 10) @ [char_of (48 + n mod 10)])"

declare digits.simps [simp del]

definition str_int :: "int \<Rightarrow> string" where
  "str_int i = (if i < 0 then CHR ''-'' # digits (nat (- i)) else digits (nat i))"

definition upper :: "string \<Rightarrow> string" where
  "upper s = map (\<lambda>c. let n = (of_char c :: nat)
                       in if 97 \<le> n \<and> n \<le> 122 then char_of (n - 32) else c) s"

definition or_default :: "string option \<Rightarrow> string \<Rightarrow> string" where
  "or_default v dflt = (case v of None \<Rightarrow> dflt | Some x \<Rightarrow> (if x = [] then dflt else x))"

definition email_subject :: "BloodAlert \<Rightarrow> string" where
  "email_subject alert =
     [CHR 0xF0, CHR 0x9F, CHR 0xA9, CHR 0xB8] @ '' URGENT: '' @ a_blood_type alert @
     '' Blood Needed at '' @ a_hospital_name alert"

definition email_body :: "User \<Rightarrow> BloodAlert \<Rightarrow> string" where
  "email_body donor alert =
     [CHR 0x0A] @ ''Dear '' @ u_name donor @ '','' @ [CHR 0x0A, CHR 0x0A] @
     ''We urgently need your help! '' @ a_hospital_name alert @ '' has requested '' @
     str_int (a_units_needed alert) @ '' units of '' @ a_blood_type alert @ '' blood.'' @
     [CHR 0x0A, CHR 0x0A] @
     ''Urgency Level: '' @ upper (a_urgency_level alert) @ [CHR 0x0A] @
     ''Description: '' @ or_default (a_description alert) ''Emergency blood requirement'' @
     [CHR 0x0A, CHR 0x0A] @
     ''Your blood type matches and you are within the search radius. If you are available to donate, please respond as soon as possible.'' @
     [CHR 0x0A, CHR 0x0A] @
     ''To respond to this alert, please log in to the Blood Donation Portal.'' @
     [CHR 0x0A, CHR 0x0A] @
     ''Thank you for your willingness to save lives!'' @ [CHR 0x0A, CHR 0x0A] @
     ''Best regards,'' @ [CHR 0x0A] @ ''Blood Donation Alert System'' @ [CHR 0x0A] @
     ''        ''"

text \<open>
  \<^verbatim>\<open>send_mock_email_notification\<close>; \<open>fresh\<close> is the pair of the record's
  \<^verbatim>\<open>uuid4()\<close> and \<^verbatim>\<open>utcnow()\<close> defaults.
\<close>

definition send_mock_email_notification ::
  "db \<Rightarrow> User \<Rightarrow> BloodAlert \<Rightarrow> string \<times> datetime \<Rightarrow> MockEmailNotification \<times> db" where
  "send_mock_email_notification s donor alert fresh =
     (let email_notification =
            \<lparr>e_id = fst fresh, e_to_email = u_email donor, e_to_name = u_name donor,
             e_subject = email_subject alert, e_body = email_body donor alert,
             e_alert_id = a_id alert, e_sent_at = snd fresh, e_status = ''sent''\<rparr>
      in (email_notification,
          s\<lparr>email_notifications := email_notifications s @ [email_notification]\<rparr>))"

subsection \<open>Alerts and donor matching\<close>

text \<open>The query of \<^verbatim>\<open>notify_matching_donors\<close>, as a predicate on a stored user.\<close>

definition donor_query :: "BloodAlert \<Rightarrow> datetime \<Rightarrow> user_doc \<Rightarrow> bool" where
  "donor_query alert three_months_ago d \<longleftrightarrow>
     d_role d = ''donor'' \<and> d_blood_type d = Some (a_blood_type alert) \<and> d_is_available d \<and>
     (field_lt (d_last_donation_date d) three_months_ago \<or>
      field_not_exists (d_last_donation_date d))"

text \<open>
  The loop over the matching donors; \<open>gen i\<close> is the fresh pair for the
  \<open>i\<close>-th notification of the call.
\<close>

fun send_all ::
  "db \<Rightarrow> user_doc list \<Rightarrow> BloodAlert \<Rightarrow> (nat \<Rightarrow> string \<times> datetime) \<Rightarrow> nat \<Rightarrow> db" where
  "send_all s [] alert gen i = s"
| "send_all s (donor_data # rest) alert gen i =
     send_all (snd (send_mock_email_notification s (User_of_doc donor_data) alert (gen i)))
       rest alert gen (Suc i)"

definition notify_matching_donors ::
  "db \<Rightarrow> BloodAlert \<Rightarrow> datetime \<Rightarrow> (nat \<Rightarrow> string \<times> datetime) \<Rightarrow> db" where
  "notify_matching_donors s alert now gen =
     (let three_months_ago = now - timedelta_days 90;
          matching_donors = find_to_list (donor_query alert three_months_ago) 100 (users s)
      in send_all s matching_donors alert gen 0)"

text \<open>
  \<^verbatim>\<open>create_blood_alert\<close>. \<open>new_id\<close> and \<open>t_created\<close> are the defaults of the
  \<^verbatim>\<open>BloodAlert\<close> model, \<open>t_expiry\<close> the clock read in the urgency branch,
  \<open>t_notify\<close> the clock read by \<^verbatim>\<open>notify_matching_donors\<close>. The model's
  \<^verbatim>\<open>hospital_name\<close> is a required string: a user without one fails validation.
\<close>

definition create_blood_alert ::
  "db \<Rightarrow> BloodAlertCreate \<Rightarrow> User \<Rightarrow> string \<Rightarrow> datetime \<Rightarrow> datetime \<Rightarrow> datetime \<Rightarrow>
   (nat \<Rightarrow> string \<times> datetime) \<Rightarrow> (http_error + BloodAlert) \<times> db" where
  "create_blood_alert s alert_data current_user new_id t_created t_expiry t_notify gen =
     (if u_role current_user \<noteq> ''hospital_staff''
      then (Inl (HTTPException 403 ''Only hospital staff can create alerts''), s)
      else case u_hospital_name current_user of
        None \<Rightarrow> (Inl ValidationError, s)
      | Some hname \<Rightarrow>
         (let alert0 =
                \<lparr>a_id = new_id, a_hospital_id = u_id current_user, a_hospital_name = hname,
                 a_blood_type = ac_blood_type alert_data,
                 a_units_needed = ac_units_needed alert_data,
                 a_urgency_level = ac_urgency_level alert_data,
                 a_description = ac_description alert_data,
                 a_location = Point [0, 0],
                 a_radius_km = ac_radius_km alert_data,
                 a_status = ''active'', a_created_at = t_created, a_expires_at = None\<rparr>;
              alert =
                (if ac_urgency_level alert_data = ''critical''
                 then alert0\<lparr>a_expires_at := Some (t_expiry + timedelta_hours 2)\<rparr>
                 else if ac_urgency_level alert_data = ''high''
                 then alert0\<lparr>a_expires_at := Some (t_expiry + timedelta_hours 6)\<rparr>
                 else alert0\<lparr>a_expires_at := Some (t_expiry + timedelta_hours 24)\<rparr>);
              s1 = s\<lparr>blood_alerts := blood_alerts s @ [alert]\<rparr>;
              s2 = notify_matching_donors s1 alert t_notify gen
          in (Inr alert, s2)))"

text \<open>
  The listings sort by a date, newest first, and then cut; documents of equal
  date keep their stored order here.
\<close>

definition sort_desc :: "('a \<Rightarrow> datetime) \<Rightarrow> 'a list \<Rightarrow> 'a list" where
  "sort_desc key docs = sort_key (\<lambda>x. - key x) docs"

definition get_blood_alerts :: "db \<Rightarrow> User \<Rightarrow> BloodAlert list" where
  "get_blood_alerts s current_user =
     (if u_role current_user = ''hospital_staff''
      then take 100 (sort_desc a_created_at
             (filter (\<lambda>a. a_hospital_id a = u_id current_user) (blood_alerts s)))
      else take 50 (sort_desc a_created_at
             (filter (\<lambda>a. Some (a_blood_type a) = u_blood_type current_user \<and>
                           a_status a = ''active'') (blood_alerts s))))"

definition get_alert_details :: "db \<Rightarrow> string \<Rightarrow> User \<Rightarrow> http_error + BloodAlert" where
  "get_alert_details s alert_id current_user =
     (case find_one (\<lambda>a. a_id a = alert_id) (blood_alerts s) of
        None \<Rightarrow> Inl (HTTPException 404 ''Alert not found'')
      | Some alert \<Rightarrow> Inr alert)"

subsection \<open>Donor responses\<close>

text \<open>
  \<^verbatim>\<open>respond_to_alert\<close>. \<open>new_id\<close> and \<open>t_responded\<close> are the defaults of the
  \<^verbatim>\<open>DonorResponse\<close> model, \<open>t_update\<close> the clock read for the user update.
\<close>

definition respond_to_alert ::
  "db \<Rightarrow> string \<Rightarrow> DonorResponseCreate \<Rightarrow> User \<Rightarrow> string \<Rightarrow> datetime \<Rightarrow> datetime \<Rightarrow>
   (http_error + DonorResponse) \<times> db" where
  "respond_to_alert s alert_id response_data current_user new_id t_responded t_update =
     (if u_role current_user \<noteq> ''donor''
      then (Inl (HTTPException 403 ''Only donors can respond to alerts''), s)
      else case find_one (\<lambda>a. a_id a = alert_id) (blood_alerts s) of
        None \<Rightarrow> (Inl (HTTPException 404 ''Alert not found''), s)
      | Some alert \<Rightarrow>
         (case find_one (\<lambda>r. r_alert_id r = alert_id \<and> r_donor_id r = u_id current_user)
                 (donor_responses s) of
            Some existing_response \<Rightarrow>
              (Inl (HTTPException 400 ''You have already responded to this alert''), s)
          | None \<Rightarrow>
             (let response =
                    \<lparr>r_id = new_id, r_alert_id = alert_id, r_donor_id = u_id current_user,
                     r_donor_name = u_name current_user,
                     r_donor_email = u_email current_user,
                     r_donor_phone = u_phone current_user,
                     r_response = rc_response response_data,
                     r_message = rc_message response_data,
                     r_responded_at = t_responded\<rparr>;
                  s1 = s\<lparr>donor_responses := donor_responses s @ [response]\<rparr>;
                  s2 = (if rc_response response_data = ''available''
                        then s1\<lparr>users := update_one (\<lambda>d. d_id d = u_id current_user)
                                   (\<lambda>d. d\<lparr>d_is_available := False,
                                           d_last_donation_date := Val t_update\<rparr>)
                                   (users s1)\<rparr>
                        else s1)
              in (Inr response, s2))))"



definition get_alert_responses :: "db \<Rightarrow> string \<Rightarrow> User \<Rightarrow> http_error + DonorResponse list" where
  "get_alert_responses s alert_id current_user =
     (if u_role current_user \<noteq> ''hospital_staff''
      then Inl (HTTPException 403 ''Access denied'')
      else case find_one (\<lambda>a. a_id a = alert_id \<and> a_hospital_id a = u_id current_user)
                  (blood_alerts s) of
        None \<Rightarrow> Inl (HTTPException 404 ''Alert not found or access denied'')
      | Some alert \<Rightarrow>
          Inr (take 100 (sort_desc r_responded_at
                 (filter (\<lambda>r. r_alert_id r = alert_id) (donor_responses s)))))"

subsection \<open>Dashboard\<close>

text \<open>
  The hospital's aggregation: each response is joined with the alerts of its
  \<^verbatim>\<open>alert_id\<close>, kept when one of them belongs to the hospital, and the kept
  responses are counted per \<^verbatim>\<open>response\<close> value; \<^verbatim>\<open>to_list(10)\<close> keeps ten
  of the groups. The store does not fix the order of the groups; here it is
  the order of \<open>remdups\<close>.
\<close>

definition response_groups :: "db \<Rightarrow> User \<Rightarrow> (string \<times> nat) list" where
  "response_groups s current_user =
     (let kept = filter (\<lambda>r. list_ex (\<lambda>a. a_hospital_id a = u_id current_user)
                                 (filter (\<lambda>a. a_id a = r_alert_id r) (blood_alerts s)))
                 (donor_responses s);
          values = map r_response kept
      in take 10 (map (\<lambda>v. (v, count_list values v)) (remdups values)))"

definition dict_get :: "(string \<times> nat) list \<Rightarrow> string \<Rightarrow> nat \<Rightarrow> nat" where
  "dict_get response_stats k dflt = (case map_of response_stats k of None \<Rightarrow> dflt | Some v \<Rightarrow> v)"

text \<open>
  The two shapes of the dashboard's dictionary. The donor's \<^verbatim>\<open>last_donation\<close>
  is kept as the date; the source formats it with \<^verbatim>\<open>isoformat()\<close>.
\<close>

datatype dashboard =
    HospitalStats (total_alerts: nat) (active_alerts: nat) (total_responses: nat)
      (available_responses: nat) (not_available_responses: nat)
  | DonorStats nat nat nat "datetime option"

definition get_dashboard_stats :: "db \<Rightarrow> User \<Rightarrow> dashboard" where
  "get_dashboard_stats s current_user =
     (if u_role current_user = ''hospital_staff''
      then (let response_stats = response_groups s current_user
            in HospitalStats
                 (count_documents (\<lambda>a. a_hospital_id a = u_id current_user) (blood_alerts s))
                 (count_documents (\<lambda>a. a_hospital_id a = u_id current_user \<and>
                                        a_status a = ''active'') (blood_alerts s))
                 (sum_list (map snd response_stats))
                 (dict_get response_stats ''available'' 0)
                 (dict_get response_stats ''not_available'' 0))
      else DonorStats
             (count_documents (\<lambda>r. r_donor_id r = u_id current_user) (donor_responses s))
             (count_documents (\<lambda>r. r_donor_id r = u_id current_user \<and>
                                    r_response r = ''available'') (donor_responses s))
             (count_documents (\<lambda>a. Some (a_blood_type a) = u_blood_type current_user \<and>
                                    a_status a = ''active'') (blood_alerts s))
             (u_last_donation_date current_user))"

definition get_mock_emails :: "db \<Rightarrow> User \<Rightarrow> MockEmailNotification list" where
  "get_mock_emails s current_user =
     (if u_role current_user = ''donor''
      then take 50 (sort_desc e_sent_at
             (filter (\<lambda>e. e_to_email e = u_email current_user) (email_notifications s)))
      else take 100 (sort_desc e_sent_at (email_notifications s)))"

subsection \<open>Registration and login\<close>

definition falsy :: "string option \<Rightarrow> bool" where
  "falsy v \<longleftrightarrow> (case v of None \<Rightarrow> True | Some x \<Rightarrow> x = [])"

text \<open>
  \<^verbatim>\<open>register\<close>. \<open>hashed_password\<close> is the result of \<^verbatim>\<open>get_password_hash\<close>,
  \<open>new_id\<close> and \<open>t_created\<close> the \<^verbatim>\<open>uuid4()\<close> and \<^verbatim>\<open>utcnow()\<close> it stores.
  \<^verbatim>\<open>user_data.dict()\<close> has every field of the registration, so the stored
  document has a \<^verbatim>\<open>last_donation_date\<close> field also when none was given: it
  holds null then. The \<^verbatim>\<open>location\<close> field is written for a donor whose
  latitude and longitude are both given and both not zero.
\<close>

definition validate_role :: "UserRegistration \<Rightarrow> http_error option" where
  "validate_role user_data =
     (if reg_role user_data = ''hospital_staff''
      then (if falsy (reg_hospital_name user_data)
            then Some (HTTPException 400 ''Hospital name is required for hospital staff'')
            else None)
      else if reg_role user_data = ''donor''
      then (if falsy (reg_blood_type user_data) \<or> falsy (reg_city user_data)
            then Some (HTTPException 400 ''Blood type and city are required for donors'')
            else None)
      else Some (HTTPException 400
                   (''Role must be 'hospital_staff' or 'donor'' @ [CHR 0x27])))"

definition donor_location :: "UserRegistration \<Rightarrow> geojson option" where
  "donor_location user_data =
     (case (reg_latitude user_data, reg_longitude user_data) of
        (Some latitude, Some longitude) \<Rightarrow>
          (if reg_role user_data = ''donor'' \<and> latitude \<noteq> 0 \<and> longitude \<noteq> 0
           then Some (Point [longitude, latitude]) else None)
      | _ \<Rightarrow> None)"

definition register ::
  "db \<Rightarrow> UserRegistration \<Rightarrow> string \<Rightarrow> string \<Rightarrow> datetime \<Rightarrow> (http_error + token \<times> User) \<times> db" where
  "register s user_data hashed_password new_id t_created =
     (case find_one (\<lambda>d. d_email d = reg_email user_data) (users s) of
        Some existing_user \<Rightarrow> (Inl (HTTPException 400 ''Email already registered''), s)
      | None \<Rightarrow>
         (case validate_role user_data of
            Some err \<Rightarrow> (Inl err, s)
          | None \<Rightarrow>
             (let user_dict =
                    \<lparr>d_email = reg_email user_data, d_password = hashed_password,
                     d_name = reg_name user_data, d_role = reg_role user_data,
                     d_phone = reg_phone user_data,
                     d_hospital_name = reg_hospital_name user_data,
                     d_hospital_address = reg_hospital_address user_data,
                     d_blood_type = reg_blood_type user_data, d_city = reg_city user_data,
                     d_latitude = reg_latitude user_data,
                     d_longitude = reg_longitude user_data,
                     d_last_donation_date =
                       (case reg_last_donation_date user_data of
                          None \<Rightarrow> Null | Some t \<Rightarrow> Val t),
                     d_id = new_id, d_created_at = t_created, d_is_available = True,
                     d_location = donor_location user_data\<rparr>
              in (Inr (create_access_token (reg_email user_data), User_of_doc user_dict),
                  s\<lparr>users := users s @ [user_dict]\<rparr>))))"

text \<open>\<^verbatim>\<open>login\<close>; \<open>verify_password\<close> is passlib's check of a password against a hash.\<close>

definition login ::
  "(string \<Rightarrow> string \<Rightarrow> bool) \<Rightarrow> db \<Rightarrow> UserLogin \<Rightarrow> http_error + token \<times> User" where
  "login verify_password s login_data =
     (case find_one (\<lambda>d. d_email d = l_email login_data) (users s) of
        None \<Rightarrow> Inl (HTTPException 401 ''Invalid email or password'')
      | Some user \<Rightarrow>
          (if \<not> verify_password (l_password login_data) (d_password user)
           then Inl (HTTPException 401 ''Invalid email or password'')
           else Inr (create_access_token (l_email login_data), User_of_doc user)))"

definition get_current_user_info :: "User \<Rightarrow> User" where
  "get_current_user_info current_user = current_user"

section \<open>The service as a whole\<close>

text \<open>
  One constructor per route, carrying the bearer token, the request body and
  the outside values its handler draws. \<open>handle\<close> resolves the
  \<^verbatim>\<open>Depends(get_current_user)\<close> of a route before its body runs.
\<close>

datatype request =
    Register UserRegistration string string datetime
  | Login UserLogin
  | Me token
  | CreateBloodAlert token BloodAlertCreate string datetime datetime datetime
      "nat \<Rightarrow> string \<times> datetime"
  | GetBloodAlerts token
  | GetAlertDetails token string
  | RespondToAlert token string DonorResponseCreate string datetime datetime
  | GetAlertResponses token string
  | GetDashboardStats token
  | GetMockEmails token

datatype reply =
    AuthReply token User
  | UserReply User
  | AlertReply BloodAlert
  | AlertsReply "BloodAlert list"
  | RespondReply DonorResponse
  | ResponsesReply "DonorResponse list"
  | StatsReply dashboard
  | EmailsReply "MockEmailNotification list"

definition with_user ::
  "db \<Rightarrow> token \<Rightarrow> (User \<Rightarrow> (http_error + reply) \<times> db) \<Rightarrow> (http_error + reply) \<times> db" where
  "with_user s credentials body =
     (case get_current_user s credentials of
        Inl err \<Rightarrow> (Inl err, s)
      | Inr current_user \<Rightarrow> body current_user)"

definition as_reply :: "('a \<Rightarrow> reply) \<Rightarrow> (http_error + 'a) \<times> db \<Rightarrow> (http_error + reply) \<times> db" where
  "as_reply wrap out = (map_sum (\<lambda>e. e) wrap (fst out), snd out)"

fun handle :: "(string \<Rightarrow> string \<Rightarrow> bool) \<Rightarrow> db \<Rightarrow> request \<Rightarrow> (http_error + reply) \<times> db" where
  "handle vp s (Register user_data hashed new_id t) =
     as_reply (\<lambda>(tok, u). AuthReply tok u) (register s user_data hashed new_id t)"
| "handle vp s (Login login_data) =
     as_reply (\<lambda>(tok, u). AuthReply tok u) (login vp s login_data, s)"
| "handle vp s (Me tok) =
     with_user s tok (\<lambda>cu. (Inr (UserReply (get_current_user_info cu)), s))"
| "handle vp s (CreateBloodAlert tok alert_data new_id t_created t_expiry t_notify gen) =
     with_user s tok (\<lambda>cu. as_reply AlertReply
       (create_blood_alert s alert_data cu new_id t_created t_expiry t_notify gen))"
| "handle vp s (GetBloodAlerts tok) =
     with_user s tok (\<lambda>cu. (Inr (AlertsReply (get_blood_alerts s cu)), s))"
| "handle vp s (GetAlertDetails tok alert_id) =
     with_user s tok (\<lambda>cu. as_reply AlertReply (get_alert_details s alert_id cu, s))"
| "handle vp s (RespondToAlert tok alert_id response_data new_id t_responded t_update) =
     with_user s tok (\<lambda>cu. as_reply RespondReply
       (respond_to_alert s alert_id response_data cu new_id t_responded t_update))"
| "handle vp s (GetAlertResponses tok alert_id) =
     with_user s tok (\<lambda>cu. as_reply ResponsesReply (get_alert_responses s alert_id cu, s))"
| "handle vp s (GetDashboardStats tok) =
     with_user s tok (\<lambda>cu. (Inr (StatsReply (get_dashboard_stats s cu)), s))"
| "handle vp s (GetMockEmails tok) =
     with_user s tok (\<lambda>cu. (Inr (EmailsReply (get_mock_emails s cu)), s))"

text \<open>
  The store after a sequence of requests, each handled from its first line to
  its last before the next one starts. This leaves out the runs in which two
  handlers take turns at their \<^verbatim>\<open>await\<close>s; what is proved of \<open>run\<close> is
  proved of requests that do not overlap.
\<close>

definition run :: "(string \<Rightarrow> string \<Rightarrow> bool) \<Rightarrow> db \<Rightarrow> request list \<Rightarrow> db" where
  "run vp s reqs = foldl (\<lambda>s' req. snd (handle vp s' req)) s reqs"

definition status_code :: "http_error + 'a \<Rightarrow> nat" where
  "status_code res =
     (case res of Inr v \<Rightarrow> 200 | Inl (HTTPException code detail) \<Rightarrow> code | Inl ValidationError \<Rightarrow> 500)"

section \<open>Definitions for the properties\<close>

text \<open>
  The notifications a handler adds: the collection only ever grows at its
  end, so they are what follows the old entries.
\<close>

definition new_notifications :: "db \<Rightarrow> db \<Rightarrow> MockEmailNotification list" where
  "new_notifications s s' = drop (length (email_notifications s)) (email_notifications s')"

text \<open>The update document of \<^verbatim>\<open>respond_to_alert\<close>, applied to a stored user.\<close>

definition mark_donated :: "datetime \<Rightarrow> user_doc \<Rightarrow> user_doc" where
  "mark_donated t = (\<lambda>d. d\<lparr>d_is_available := False, d_last_donation_date := Val t\<rparr>)"

subsection \<open>A small concrete service\<close>

text \<open>
  One hospital user and one donor who registers without a donation date, an
  alert for the donor's blood type and the donor's answer: the scenario of
  the repository's \<^verbatim>\<open>focused_donor_response_test.py\<close>, with short strings.
\<close>

definition staff_reg :: UserRegistration where
  "staff_reg = \<lparr>reg_email = ''staff@city.org'', reg_password = ''pw1'', reg_name = ''Emily'',
     reg_role = ''hospital_staff'', reg_phone = None, reg_hospital_name = Some ''City Hospital'',
     reg_hospital_address = None, reg_blood_type = None, reg_city = None,
     reg_latitude = None, reg_longitude = None, reg_last_donation_date = None\<rparr>"

definition donor_reg :: UserRegistration where
  "donor_reg = \<lparr>reg_email = ''alex@mail.com'', reg_password = ''pw2'', reg_name = ''Alex'',
     reg_role = ''donor'', reg_phone = None, reg_hospital_name = None,
     reg_hospital_address = None, reg_blood_type = Some ''A+'', reg_city = Some ''Town'',
     reg_latitude = Some 40, reg_longitude = Some (- 73), reg_last_donation_date = None\<rparr>"

definition alert_req :: BloodAlertCreate where
  "alert_req = \<lparr>ac_blood_type = ''A+'', ac_units_needed = 3, ac_urgency_level = ''high'',
     ac_description = None, ac_radius_km = 30\<rparr>"

definition staff_token :: token where
  "staff_token = Payload (Some ''staff@city.org'')"

definition donor_token :: token where
  "donor_token = Payload (Some ''alex@mail.com'')"

definition demo_gen :: "nat \<Rightarrow> string \<times> datetime" where
  "demo_gen i = (''e'' @ replicate i (CHR ''x''), 3003 + int i)"

definition yes :: DonorResponseCreate where
  "yes = \<lparr>rc_response = ''available'', rc_message = None\<rparr>"

definition maybe :: DonorResponseCreate where
  "maybe = \<lparr>rc_response = ''maybe'', rc_message = None\<rparr>"

definition staff_doc :: user_doc where
  "staff_doc = \<lparr>d_email = ''staff@city.org'', d_password = ''h1'', d_name = ''Emily'',
     d_role = ''hospital_staff'', d_phone = None, d_hospital_name = Some ''City Hospital'',
     d_hospital_address = None, d_blood_type = None, d_city = None, d_latitude = None,
     d_longitude = None, d_last_donation_date = Null, d_id = ''u1'', d_created_at = 1000,
     d_is_available = True, d_location = None\<rparr>"

definition donor_doc :: user_doc where
  "donor_doc = \<lparr>d_email = ''alex@mail.com'', d_password = ''h2'', d_name = ''Alex'',
     d_role = ''donor'', d_phone = None, d_hospital_name = None, d_hospital_address = None,
     d_blood_type = Some ''A+'', d_city = Some ''Town'', d_latitude = Some 40,
     d_longitude = Some (- 73), d_last_donation_date = Null, d_id = ''u2'',
     d_created_at = 2000, d_is_available = True, d_location = Some (Point [- 73, 40])\<rparr>"

definition demo_alert :: BloodAlert where
  "demo_alert = \<lparr>a_id = ''a1'', a_hospital_id = ''u1'', a_hospital_name = ''City Hospital'',
     a_blood_type = ''A+'', a_units_needed = 3, a_urgency_level = ''high'',
     a_description = None, a_location = Point [0, 0], a_radius_km = 30,
     a_status = ''active'', a_created_at = 3000, a_expires_at = Some 21600003001\<rparr>"

definition users_db :: db where
  "users_db = \<lparr>users = [staff_doc, donor_doc], blood_alerts = [], donor_responses = [],
     email_notifications = []\<rparr>"

definition alert_db :: db where
  "alert_db = \<lparr>users = [staff_doc, donor_doc], blood_alerts = [demo_alert],
     donor_responses = [], email_notifications = []\<rparr>"

definition demo_response :: "string \<Rightarrow> DonorResponse" where
  "demo_response v = \<lparr>r_id = ''r1'', r_alert_id = ''a1'', r_donor_id = ''u2'',
     r_donor_name = ''Alex'', r_donor_email = ''alex@mail.com'', r_donor_phone = None,
     r_response = v, r_message = None, r_responded_at = 4000\<rparr>"

definition answered_db :: "string \<Rightarrow> db" where
  "answered_db v = \<lparr>users = [staff_doc, donor_doc], blood_alerts = [demo_alert],
     donor_responses = [demo_response v], email_notifications = []\<rparr>"

definition donated_db :: db where
  "donated_db = \<lparr>users = [staff_doc, mark_donated 4001 donor_doc], blood_alerts = [demo_alert],
     donor_responses = [demo_response ''available''], email_notifications = []\<rparr>"

text \<open>A password check for the scenario: the password \<^verbatim>\<open>pw1\<close> has the hash \<^verbatim>\<open>h1\<close>.\<close>

definition demo_verify :: "string \<Rightarrow> string \<Rightarrow> bool" where
  "demo_verify plain hashed \<longleftrightarrow> hashed = CHR ''h'' # drop 2 plain"

definition scenario :: "request list" where
  "scenario =
     [Register staff_reg ''h1'' ''u1'' 1000,
      Register donor_reg ''h2'' ''u2'' 2000,
      CreateBloodAlert staff_token alert_req ''a1'' 3000 3001 3002 demo_gen,
      RespondToAlert donor_token ''a1'' maybe ''r1'' 4000 4001]"




subsection \<open>Stores compared up to a field\<close>

text \<open>
  Two stores that are equal once every alert's \<^verbatim>\<open>expires_at\<close> is blanked
  differ in nothing but the expiry dates of their alerts; likewise for
  replies, and for the location fields of the stored users.
\<close>

definition forget_expiry :: "BloodAlert \<Rightarrow> BloodAlert" where
  "forget_expiry a = a\<lparr>a_expires_at := None\<rparr>"

definition forget_expiry_db :: "db \<Rightarrow> db" where
  "forget_expiry_db s = s\<lparr>blood_alerts := map forget_expiry (blood_alerts s)\<rparr>"

fun forget_expiry_reply :: "reply \<Rightarrow> reply" where
  "forget_expiry_reply (AlertReply a) = AlertReply (forget_expiry a)"
| "forget_expiry_reply (AlertsReply as) = AlertsReply (map forget_expiry as)"
| "forget_expiry_reply r = r"

definition forget_expiry_out :: "(http_error + reply) \<times> db \<Rightarrow> (http_error + reply) \<times> db" where
  "forget_expiry_out out = (map_sum (\<lambda>e. e) forget_expiry_reply (fst out), forget_expiry_db (snd out))"

definition forget_location :: "user_doc \<Rightarrow> user_doc" where
  "forget_location d = d\<lparr>d_latitude := None, d_longitude := None, d_location := None\<rparr>"

text \<open>An alert that is cancelled and expired long before the donor answers.\<close>

definition cancelled_db :: db where
  "cancelled_db = \<lparr>users = [staff_doc, donor_doc],
     blood_alerts = [demo_alert\<lparr>a_status := ''cancelled''\<rparr>],
     donor_responses = [], email_notifications = []\<rparr>"

definition expired_db :: db where
  "expired_db = \<lparr>users = [staff_doc, donor_doc],
     blood_alerts = [demo_alert\<lparr>a_status := ''cancelled'', a_expires_at := Some 10\<rparr>],
     donor_responses = [], email_notifications = []\<rparr>"

text \<open>The record \<^verbatim>\<open>send_mock_email_notification\<close> builds, which does not depend on the store.\<close>

definition mock_email :: "User \<Rightarrow> BloodAlert \<Rightarrow> string \<times> datetime \<Rightarrow> MockEmailNotification" where
  "mock_email donor alert fresh = fst (send_mock_email_notification empty_db donor alert fresh)"

text \<open>The notifications of one call of \<^verbatim>\<open>notify_matching_donors\<close> for given recipients.\<close>

definition mails_for ::
  "user_doc list \<Rightarrow> BloodAlert \<Rightarrow> (nat \<Rightarrow> string \<times> datetime) \<Rightarrow> nat \<Rightarrow> MockEmailNotification list" where
  "mails_for ds alert gen i = map (\<lambda>(j, d). mock_email (User_of_doc d) alert (gen j)) (enumerate i ds)"

subsection \<open>The matching rule in the specification's words\<close>

text \<open>
  A stored user is to be notified of an alert when the user is a donor of the
  alert's blood type, is available, and has no last donation recorded or one
  strictly earlier than 90 days before the current time.
\<close>

definition eligible_donor :: "BloodAlert \<Rightarrow> datetime \<Rightarrow> user_doc \<Rightarrow> bool" where
  "eligible_donor alert now d \<longleftrightarrow>
     d_role d = ''donor'' \<and> d_blood_type d = Some (a_blood_type alert) \<and> d_is_available d \<and>
     (case d_last_donation_date d of
        Val t \<Rightarrow> t < now - timedelta_days 90
      | Null \<Rightarrow> True
      | Missing \<Rightarrow> True)"

definition addressee :: "MockEmailNotification \<Rightarrow> string \<times> string \<times> string" where
  "addressee e = (e_to_email e, e_to_name e, e_alert_id e)"

subsection \<open>Donors with a donation date\<close>

text \<open>
  Day 100 after the epoch and three donors with a date: one of the alert's
  blood type who gave on day 0, one who gave on day 99, one of another blood
  type; the first of them at another place; and 101 donors like the first.
\<close>

definition day100 :: datetime where
  "day100 = timedelta_days 100"

definition veteran_doc :: user_doc where
  "veteran_doc = donor_doc\<lparr>d_email := ''vera@mail.com'', d_name := ''Vera'', d_id := ''u3'',
     d_last_donation_date := Val 0\<rparr>"

definition recent_doc :: user_doc where
  "recent_doc = donor_doc\<lparr>d_email := ''rob@mail.com'', d_name := ''Rob'', d_id := ''u4'',
     d_last_donation_date := Val (timedelta_days 99)\<rparr>"

definition other_doc :: user_doc where
  "other_doc = donor_doc\<lparr>d_email := ''otto@mail.com'', d_name := ''Otto'', d_id := ''u5'',
     d_blood_type := Some ''B+'', d_last_donation_date := Val 0\<rparr>"

definition dated_db :: db where
  "dated_db = \<lparr>users = [staff_doc, recent_doc, veteran_doc, other_doc], blood_alerts = [],
     donor_responses = [], email_notifications = []\<rparr>"

definition moved_db :: db where
  "moved_db = \<lparr>users = [staff_doc, recent_doc,
       veteran_doc\<lparr>d_latitude := Some (- 33), d_longitude := Some 151,
                   d_location := Some (Point [151, - 33])\<rparr>, other_doc],
     blood_alerts = [], donor_responses = [], email_notifications = []\<rparr>"

definition crowd_donor :: "nat \<Rightarrow> user_doc" where
  "crowd_donor i = veteran_doc\<lparr>d_email := replicate (Suc i) (CHR ''d'') @ ''@mail.com'',
     d_id := replicate (Suc i) (CHR ''u'')\<rparr>"

definition crowd_db :: db where
  "crowd_db = \<lparr>users = map crowd_donor [0..<101], blood_alerts = [], donor_responses = [],
     email_notifications = []\<rparr>"

section \<open>Properties\<close>

subsection \<open>The store's operations\<close>

lemma find_SomeD_split:
  "find P xs = Some x \<Longrightarrow> \<exists>pre post. xs = pre @ x # post \<and> P x \<and> (\<forall>y\<in>set pre. \<not> P y)"
proof (induction xs)
  case Nil
  then show ?case by simp
next
  case (Cons a xs)
  show ?case
  proof (cases "P a")
    case True
    with Cons.prems have "a = x" by simp
    with True have "a # xs = [] @ x # xs \<and> P x \<and> (\<forall>y\<in>set []. \<not> P y)" by simp
    then show ?thesis by blast
  next
    case False
    with Cons.prems have "find P xs = Some x" by simp
    from Cons.IH [OF this] obtain pre post
      where "xs = pre @ x # post" "P x" "\<forall>y\<in>set pre. \<not> P y" by blast
    with False have "a # xs = (a # pre) @ x # post \<and> P x \<and> (\<forall>y\<in>set (a # pre). \<not> P y)"
      by simp
    then show ?thesis by blast
  qed
qed

lemma find_split_eq:
  "P x \<Longrightarrow> \<forall>y\<in>set pre. \<not> P y \<Longrightarrow> find P (pre @ x # post) = Some x"
  by (induction pre) simp_all

lemma find_append_case:
  "find P (xs @ ys) = (case find P xs of None \<Rightarrow> find P ys | Some x \<Rightarrow> Some x)"
  by (induction xs) simp_all

lemma find_None_set: "find P xs = None \<longleftrightarrow> (\<forall>y\<in>set xs. \<not> P y)"
  by (induction xs) simp_all

lemma update_one_split:
  "q x \<Longrightarrow> \<forall>y\<in>set pre. \<not> q y \<Longrightarrow> update_one q f (pre @ x # post) = pre @ f x # post"
  by (induction pre) simp_all

lemma update_one_none: "\<forall>y\<in>set xs. \<not> q y \<Longrightarrow> update_one q f xs = xs"
  by (induction xs) simp_all

lemma User_of_doc_simps:
  "u_id (User_of_doc d) = d_id d" "u_email (User_of_doc d) = d_email d"
  "u_is_available (User_of_doc d) = d_is_available d" "u_role (User_of_doc d) = d_role d"
  by (simp_all add: User_of_doc_def)

lemma get_current_user_InrD:
  assumes "get_current_user s tok = Inr cu"
  shows "\<exists>email d. tok = Payload (Some email) \<and>
           find (\<lambda>d. d_email d = email) (users s) = Some d \<and> cu = User_of_doc d"
  using assms
  by (auto simp: get_current_user_def find_one_def split: token.splits option.splits)

subsection \<open>What the handlers leave alone\<close>

lemma send_all_frame:
  "users (send_all s ds alert gen i) = users s \<and>
   blood_alerts (send_all s ds alert gen i) = blood_alerts s \<and>
   donor_responses (send_all s ds alert gen i) = donor_responses s"
  by (induction ds arbitrary: s i) (simp_all add: send_mock_email_notification_def Let_def)

lemma send_all_emails:
  "email_notifications (send_all s ds alert gen i) =
     email_notifications s @
     map (\<lambda>(j, d). fst (send_mock_email_notification s (User_of_doc d) alert (gen j)))
       (enumerate i ds)"
  by (induction ds arbitrary: s i) (simp_all add: send_mock_email_notification_def Let_def)

lemma notify_frame:
  "users (notify_matching_donors s alert now gen) = users s \<and>
   blood_alerts (notify_matching_donors s alert now gen) = blood_alerts s \<and>
   donor_responses (notify_matching_donors s alert now gen) = donor_responses s"
  by (simp add: notify_matching_donors_def Let_def send_all_frame)

lemma respond_success_cases:
  assumes "respond_to_alert s alert_id rd cu new_id t1 t2 = (Inr resp, s')"
  shows "u_role cu = ''donor'' \<and> find_one (\<lambda>a. a_id a = alert_id) (blood_alerts s) \<noteq> None \<and>
         find_one (\<lambda>r. r_alert_id r = alert_id \<and> r_donor_id r = u_id cu) (donor_responses s) = None \<and>
         resp = \<lparr>r_id = new_id, r_alert_id = alert_id, r_donor_id = u_id cu,
                 r_donor_name = u_name cu, r_donor_email = u_email cu,
                 r_donor_phone = u_phone cu, r_response = rc_response rd,
                 r_message = rc_message rd, r_responded_at = t1\<rparr> \<and>
         blood_alerts s' = blood_alerts s \<and>
         email_notifications s' = email_notifications s \<and>
         donor_responses s' = donor_responses s @ [resp] \<and>
         users s' = (if rc_response rd = ''available''
                     then update_one (\<lambda>d. d_id d = u_id cu) (mark_donated t2) (users s)
                     else users s)"
  using assms
  by (auto simp: respond_to_alert_def Let_def mark_donated_def split: if_splits option.splits)

subsection \<open>Runs of the service\<close>

lemma run_Nil: "run vp s [] = s"
  by (simp add: run_def)

lemma run_Cons: "run vp s (req # reqs) = run vp (snd (handle vp s req)) reqs"
  by (simp add: run_def)

lemma run_append: "run vp s (reqs @ later) = run vp (run vp s reqs) later"
  by (simp add: run_def)

lemma register_frame:
  "blood_alerts (snd (register s ud h i t)) = blood_alerts s \<and>
   donor_responses (snd (register s ud h i t)) = donor_responses s \<and>
   email_notifications (snd (register s ud h i t)) = email_notifications s"
  by (simp add: register_def Let_def split: option.splits)


lemma create_blood_alert_alerts:
  "blood_alerts (snd (create_blood_alert s ad cu i t0 t1 t2 gen)) = blood_alerts s \<or>
   (\<exists>a. blood_alerts (snd (create_blood_alert s ad cu i t0 t1 t2 gen)) = blood_alerts s @ [a] \<and>
        a_status a = ''active'')"
  by (simp add: create_blood_alert_def Let_def notify_frame split: option.splits)


lemma respond_to_alert_alerts:
  "blood_alerts (snd (respond_to_alert s aid rd cu i t1 t2)) = blood_alerts s"
  by (simp add: respond_to_alert_def Let_def split: option.splits)

lemma handle_alerts:
  "blood_alerts (snd (handle vp s req)) = blood_alerts s \<or>
   (\<exists>a. blood_alerts (snd (handle vp s req)) = blood_alerts s @ [a] \<and> a_status a = ''active'')"
proof (cases req)
  case (CreateBloodAlert tok ad i t0 t1 t2 gen)
  then show ?thesis
    using create_blood_alert_alerts [of s ad _ i t0 t1 t2 gen]
    by (auto simp: with_user_def as_reply_def split: sum.splits)
qed (simp_all add: with_user_def as_reply_def register_frame respond_to_alert_alerts
      split: sum.splits)


lemma run_alerts_prefix: "prefix (blood_alerts s) (blood_alerts (run vp s reqs))"
proof (induction reqs arbitrary: s)
  case Nil
  show ?case by (simp add: run_Nil)
next
  case (Cons req reqs)
  have "prefix (blood_alerts s) (blood_alerts (snd (handle vp s req)))"
    using handle_alerts [of vp s req] by auto
  with Cons.IH [of "snd (handle vp s req)"] show ?case
    by (simp add: run_Cons)
qed


lemma run_alerts_active:
  "\<forall>a\<in>set (blood_alerts s). a_status a = ''active'' \<Longrightarrow>
   \<forall>a\<in>set (blood_alerts (run vp s reqs)). a_status a = ''active''"
proof (induction reqs arbitrary: s)
  case Nil
  then show ?case by (simp add: run_Nil)
next
  case (Cons req reqs)
  have "\<forall>a\<in>set (blood_alerts (snd (handle vp s req))). a_status a = ''active''"
    using handle_alerts [of vp s req] Cons.prems by auto
  from Cons.IH [OF this] show ?case by (simp add: run_Cons)
qed


text \<open>The concrete stores are the ones the scenario goes through.\<close>

lemmas demo_defs =
  staff_reg_def donor_reg_def alert_req_def staff_token_def donor_token_def yes_def maybe_def
  staff_doc_def donor_doc_def demo_alert_def users_db_def alert_db_def demo_response_def
  answered_db_def donated_db_def mark_donated_def

lemmas handler_defs =
  register_def find_one_def validate_role_def falsy_def as_reply_def with_user_def
  get_current_user_def create_access_token_def User_of_doc_def donor_location_def
  create_blood_alert_def Let_def notify_matching_donors_def find_to_list_def donor_query_def
  respond_to_alert_def timedelta_hours_def timedelta_days_def get_alert_details_def
  status_code_def

lemma scenario_users_db: "run vp empty_db (take 2 scenario) = users_db"
  by (simp add: run_def scenario_def empty_db_def demo_defs handler_defs)

lemma scenario_alert_db: "run vp empty_db (take 3 scenario) = alert_db"
  by (simp add: run_def scenario_def empty_db_def demo_defs handler_defs)

lemma scenario_answered_db: "run vp empty_db scenario = answered_db ''maybe''"
  by (simp add: run_def scenario_def empty_db_def demo_defs handler_defs)

subsection \<open>Alerts compared up to their expiry\<close>

lemma find_map_option: "find P (map f xs) = map_option f (find (\<lambda>x. P (f x)) xs)"
  by (induction xs) simp_all

lemma insort_key_map_commute:
  "insort_key k (f x) (map f xs) = map f (insort_key (\<lambda>x. k (f x)) x xs)"
  by (induction xs) simp_all

lemma sort_key_map_commute: "sort_key k (map f xs) = map f (sort_key (\<lambda>x. k (f x)) xs)"
  by (induction xs) (simp_all add: insort_key_map_commute)

lemma sort_desc_map_commute:
  "sort_desc k (map f xs) = map f (sort_desc (\<lambda>x. k (f x)) xs)"
  by (simp add: sort_desc_def sort_key_map_commute)

lemma filter_map_commute: "filter P (map f xs) = map f (filter (\<lambda>x. P (f x)) xs)"
  by (induction xs) simp_all

lemma db_eqI:
  fixes a b :: db
  shows "users a = users b \<Longrightarrow> blood_alerts a = blood_alerts b \<Longrightarrow>
   donor_responses a = donor_responses b \<Longrightarrow> email_notifications a = email_notifications b \<Longrightarrow>
   a = b"
  by (cases a, cases b) simp

lemma send_mock_email_notification_eq:
  "send_mock_email_notification s donor alert fresh =
     (mock_email donor alert fresh,
      s\<lparr>email_notifications := email_notifications s @ [mock_email donor alert fresh]\<rparr>)"
  by (simp add: send_mock_email_notification_def mock_email_def Let_def)

lemma send_all_eq:
  "send_all s ds alert gen i =
     s\<lparr>email_notifications := email_notifications s @ mails_for ds alert gen i\<rparr>"
  by (induction ds arbitrary: s i) (simp_all add: send_mock_email_notification_eq mails_for_def)

lemma notify_matching_donors_eq:
  "notify_matching_donors s alert now gen =
     s\<lparr>email_notifications := email_notifications s @
         mails_for (find_to_list (donor_query alert (now - timedelta_days 90)) 100 (users s))
           alert gen 0\<rparr>"
  by (simp add: notify_matching_donors_def Let_def send_all_eq)

lemma forget_expiry_fields [simp]:
  "a_id (forget_expiry a) = a_id a" "a_hospital_id (forget_expiry a) = a_hospital_id a"
  "a_blood_type (forget_expiry a) = a_blood_type a" "a_status (forget_expiry a) = a_status a"
  "a_created_at (forget_expiry a) = a_created_at a"
  "forget_expiry (forget_expiry a) = forget_expiry a"
  by (simp_all add: forget_expiry_def)

lemma forget_expiry_db_fields [simp]:
  "users (forget_expiry_db s) = users s"
  "donor_responses (forget_expiry_db s) = donor_responses s"
  "email_notifications (forget_expiry_db s) = email_notifications s"
  "blood_alerts (forget_expiry_db s) = map forget_expiry (blood_alerts s)"
  by (simp_all add: forget_expiry_db_def)

lemma forget_expiry_db_idem [simp]: "forget_expiry_db (forget_expiry_db s) = forget_expiry_db s"
  by (rule db_eqI) simp_all

lemma get_current_user_forget [simp]:
  "get_current_user (forget_expiry_db s) tok = get_current_user s tok"
  by (simp add: get_current_user_def split: token.splits option.splits)

lemma register_forget:
  "forget_expiry_out (as_reply w (register (forget_expiry_db s) ud h i t)) =
   forget_expiry_out (as_reply w (register s ud h i t))"
  by (auto simp: register_def forget_expiry_out_def as_reply_def Let_def
      intro!: db_eqI split: option.splits)

lemma login_forget: "login vp (forget_expiry_db s) ld = login vp s ld"
  by (simp add: login_def split: option.splits)

lemma create_forget:
  "forget_expiry_out (as_reply AlertReply (create_blood_alert (forget_expiry_db s) ad cu i t0 t1 t2 gen)) =
   forget_expiry_out (as_reply AlertReply (create_blood_alert s ad cu i t0 t1 t2 gen))"
  by (auto simp: create_blood_alert_def forget_expiry_out_def as_reply_def Let_def
      notify_matching_donors_eq intro!: db_eqI split: option.splits)

lemma respond_forget:
  "forget_expiry_out (as_reply RespondReply (respond_to_alert (forget_expiry_db s) aid rd cu i t1 t2)) =
   forget_expiry_out (as_reply RespondReply (respond_to_alert s aid rd cu i t1 t2))"
  by (auto simp: respond_to_alert_def forget_expiry_out_def as_reply_def Let_def find_one_def
      find_map_option intro!: db_eqI split: option.splits)

lemma get_blood_alerts_forget:
  "get_blood_alerts (forget_expiry_db s) cu = map forget_expiry (get_blood_alerts s cu)"
  by (simp add: get_blood_alerts_def filter_map_commute sort_desc_map_commute take_map)

lemma get_alert_details_forget:
  "get_alert_details (forget_expiry_db s) aid cu = map_sum (\<lambda>e. e) forget_expiry (get_alert_details s aid cu)"
  by (simp add: get_alert_details_def find_one_def find_map_option split: option.splits)

lemma get_alert_responses_forget:
  "get_alert_responses (forget_expiry_db s) aid cu = get_alert_responses s aid cu"
  by (simp add: get_alert_responses_def find_one_def find_map_option split: option.splits)

lemma list_ex_map_commute: "list_ex P (map f xs) = list_ex (\<lambda>x. P (f x)) xs"
  by (induction xs) simp_all

lemma get_dashboard_stats_forget:
  "get_dashboard_stats (forget_expiry_db s) cu = get_dashboard_stats s cu"
  by (simp add: get_dashboard_stats_def response_groups_def count_documents_def
      filter_map_commute list_ex_map_commute Let_def)

lemma get_mock_emails_forget:
  "get_mock_emails (forget_expiry_db s) cu = get_mock_emails s cu"
  by (simp add: get_mock_emails_def)

lemma with_user_forget:
  assumes "\<And>cu. forget_expiry_out (body' cu) = forget_expiry_out (body cu)"
  shows "forget_expiry_out (with_user (forget_expiry_db s) tok body') =
         forget_expiry_out (with_user s tok body)"
  using assms by (simp add: with_user_def forget_expiry_out_def split: sum.splits)

lemma handle_forget:
  "forget_expiry_out (handle vp (forget_expiry_db s) req) = forget_expiry_out (handle vp s req)"
proof (cases req)
  case (Register ud h i t)
  then show ?thesis by (simp add: register_forget)
next
  case (Login ld)
  then show ?thesis by (simp add: login_forget forget_expiry_out_def as_reply_def)
next
  case (Me tok)
  show ?thesis unfolding Me handle.simps
    by (rule with_user_forget) (simp add: forget_expiry_out_def)
next
  case (CreateBloodAlert tok ad i t0 t1 t2 gen)
  show ?thesis unfolding CreateBloodAlert handle.simps
    by (rule with_user_forget) (rule create_forget)
next
  case (GetBloodAlerts tok)
  show ?thesis unfolding GetBloodAlerts handle.simps
    by (rule with_user_forget) (simp add: forget_expiry_out_def get_blood_alerts_forget)
next
  case (GetAlertDetails tok aid)
  show ?thesis unfolding GetAlertDetails handle.simps
  proof (rule with_user_forget)
    fix cu
    show "forget_expiry_out (as_reply AlertReply (get_alert_details (forget_expiry_db s) aid cu,
              forget_expiry_db s)) =
          forget_expiry_out (as_reply AlertReply (get_alert_details s aid cu, s))"
      by (cases "get_alert_details s aid cu")
         (simp_all add: forget_expiry_out_def as_reply_def get_alert_details_forget)
  qed
next
  case (RespondToAlert tok aid rd i t1 t2)
  show ?thesis unfolding RespondToAlert handle.simps
    by (rule with_user_forget) (rule respond_forget)
next
  case (GetAlertResponses tok aid)
  show ?thesis unfolding GetAlertResponses handle.simps
    by (rule with_user_forget)
       (simp add: forget_expiry_out_def as_reply_def get_alert_responses_forget)
next
  case (GetDashboardStats tok)
  show ?thesis unfolding GetDashboardStats handle.simps
    by (rule with_user_forget) (simp add: forget_expiry_out_def get_dashboard_stats_forget)
next
  case (GetMockEmails tok)
  show ?thesis unfolding GetMockEmails handle.simps
    by (rule with_user_forget) (simp add: forget_expiry_out_def get_mock_emails_forget)
qed

subsection \<open>The notifications of one call\<close>

lemma new_notifications_append [simp]:
  "new_notifications s (s\<lparr>email_notifications := email_notifications s @ new\<rparr>) = new"
  by (simp add: new_notifications_def)

lemma new_notifications_same [simp]: "new_notifications s s = []"
  by (simp add: new_notifications_def)

lemma new_notifications_stored:
  "new_notifications s (notify_matching_donors (s\<lparr>blood_alerts := as\<rparr>) a now gen) =
   new_notifications s (notify_matching_donors s a now gen)"
  by (simp add: notify_matching_donors_eq new_notifications_def)

lemma new_notifications_notify:
  "new_notifications s (notify_matching_donors s alert now gen) =
     mails_for (find_to_list (donor_query alert (now - timedelta_days 90)) 100 (users s)) alert gen 0"
  by (simp add: notify_matching_donors_eq)

lemma mock_email_fields:
  "e_to_email (mock_email donor alert fresh) = u_email donor"
  "e_to_name (mock_email donor alert fresh) = u_name donor"
  "e_alert_id (mock_email donor alert fresh) = a_id alert"
  "e_id (mock_email donor alert fresh) = fst fresh"
  "e_sent_at (mock_email donor alert fresh) = snd fresh"
  by (simp_all add: mock_email_def send_mock_email_notification_def Let_def)

lemma addressee_mails_for:
  "map addressee (mails_for ds alert gen i) = map (\<lambda>d. (d_email d, d_name d, a_id alert)) ds"
  by (induction ds arbitrary: i)
     (simp_all add: mails_for_def addressee_def mock_email_fields User_of_doc_def)

lemma mock_email_radius:
  "mock_email donor (alert\<lparr>a_radius_km := r\<rparr>) fresh = mock_email donor alert fresh"
  by (simp add: mock_email_def send_mock_email_notification_def Let_def email_subject_def
      email_body_def)

lemma mock_email_location:
  "mock_email (User_of_doc (forget_location d)) alert fresh = mock_email (User_of_doc d) alert fresh"
  by (simp add: mock_email_def send_mock_email_notification_def Let_def email_subject_def
      email_body_def User_of_doc_def forget_location_def)

lemma mails_for_location:
  "mails_for (map forget_location ds) alert gen i = mails_for ds alert gen i"
  by (induction ds arbitrary: i) (simp_all add: mails_for_def mock_email_location)

lemma mails_for_radius:
  "mails_for ds (alert\<lparr>a_radius_km := r\<rparr>) gen i = mails_for ds alert gen i"
  by (simp add: mails_for_def mock_email_radius)

lemma donor_query_location:
  "donor_query alert t (forget_location d) = donor_query alert t d"
  by (simp add: donor_query_def forget_location_def)

lemma donor_query_radius:
  "donor_query (alert\<lparr>a_radius_km := r\<rparr>) t = donor_query alert t"
  by (simp add: donor_query_def fun_eq_iff)

lemma find_to_list_location:
  "map forget_location (find_to_list (donor_query alert t) n ds) =
   find_to_list (donor_query alert t) n (map forget_location ds)"
  by (simp add: find_to_list_def filter_map_commute take_map donor_query_location)

lemma notify_location_radius:
  assumes "map forget_location (users s1) = map forget_location (users s2)"
  shows "new_notifications s1 (notify_matching_donors s1 alert now gen) =
         new_notifications s2 (notify_matching_donors s2 (alert\<lparr>a_radius_km := r\<rparr>) now gen)"
proof -
  let ?q = "donor_query alert (now - timedelta_days 90)"
  have "mails_for (find_to_list ?q 100 (users s1)) alert gen 0 =
        mails_for (map forget_location (find_to_list ?q 100 (users s1))) alert gen 0"
    by (simp add: mails_for_location)
  also have "\<dots> = mails_for (map forget_location (find_to_list ?q 100 (users s2))) alert gen 0"
    by (simp add: find_to_list_location assms)
  also have "\<dots> = mails_for (find_to_list ?q 100 (users s2)) alert gen 0"
    by (simp add: mails_for_location)
  finally show ?thesis
    by (simp add: new_notifications_notify donor_query_radius mails_for_radius)
qed

subsection \<open>Who is notified of an alert\<close>

lemma donor_query_eligible:
  "d_last_donation_date d \<noteq> Null \<Longrightarrow>
   donor_query alert (now - timedelta_days 90) d = eligible_donor alert now d"
  by (cases "d_last_donation_date d") (simp_all add: donor_query_def eligible_donor_def)

lemma donor_query_Null:
  "d_last_donation_date d = Null \<Longrightarrow> \<not> donor_query alert t d"
  by (simp add: donor_query_def)

lemma crowd_donor_email_inj: "d_email (crowd_donor i) = d_email (crowd_donor j) \<Longrightarrow> i = j"
  by (drule arg_cong [of _ _ length]) (simp add: crowd_donor_def)

lemma crowd_donor_query: "donor_query demo_alert (day100 - timedelta_days 90) (crowd_donor i)"
  by (simp add: donor_query_def crowd_donor_def veteran_doc_def donor_doc_def demo_alert_def
      day100_def timedelta_days_def)

lemma crowd_donor_eligible: "eligible_donor demo_alert day100 (crowd_donor i)"
  by (simp add: eligible_donor_def crowd_donor_def veteran_doc_def donor_doc_def demo_alert_def
      day100_def timedelta_days_def)

lemma crowd_notified:
  "new_notifications crowd_db (notify_matching_donors crowd_db demo_alert day100 demo_gen) =
     mails_for (map crowd_donor [0..<100]) demo_alert demo_gen 0"
proof -
  have "filter (donor_query demo_alert (day100 - timedelta_days 90)) (map crowd_donor [0..<101]) =
        map crowd_donor [0..<101]"
    by (rule filter_True) (auto simp: crowd_donor_query)
  then show ?thesis
    by (simp add: new_notifications_notify find_to_list_def crowd_db_def take_map)
qed

lemma to_email_mails_for:
  "map e_to_email (mails_for ds alert gen i) = map d_email ds"
  by (induction ds arbitrary: i) (simp_all add: mails_for_def mock_email_fields User_of_doc_def)

text \<open>
  C1, as the code has it. \<^verbatim>\<open>notify_matching_donors\<close> reads the first 100
  matches of its query and no more. When no stored donor of the alert's
  blood type who is available holds a null \<^verbatim>\<open>last_donation_date\<close>, the
  notifications it inserts are, in stored order, one for each of the first
  100 stored users who are donors of the alert's blood type, available, and
  without a donation date or with one strictly earlier than 90 days before
  the clock reading; each carries the user's e-mail and name and the alert's
  id. Nothing else of the store changes, and the same holds for the
  notifications of a successful \<^verbatim>\<open>create_blood_alert\<close>.
\<close>

theorem notify_matching_donors_first_100:
  assumes dated: "\<forall>d\<in>set (users s). d_role d = ''donor'' \<and>
      d_blood_type d = Some (a_blood_type alert) \<and> d_is_available d \<longrightarrow>
      d_last_donation_date d \<noteq> Null"
  shows "map addressee (new_notifications s (notify_matching_donors s alert now gen)) =
           map (\<lambda>d. (d_email d, d_name d, a_id alert))
             (take 100 (filter (eligible_donor alert now) (users s))) \<and>
         email_notifications (notify_matching_donors s alert now gen) =
           email_notifications s @ new_notifications s (notify_matching_donors s alert now gen) \<and>
         users (notify_matching_donors s alert now gen) = users s \<and>
         blood_alerts (notify_matching_donors s alert now gen) = blood_alerts s \<and>
         donor_responses (notify_matching_donors s alert now gen) = donor_responses s \<and>
         (\<forall>created s'.
            create_blood_alert s alert_data cu new_id t_created t_expiry now gen = (Inr created, s') \<and>
            ac_blood_type alert_data = a_blood_type alert \<longrightarrow>
              map addressee (new_notifications s s') =
                map (\<lambda>d. (d_email d, d_name d, a_id created))
                  (take 100 (filter (eligible_donor created now) (users s))))"
proof -
  have same: "filter (donor_query a (now - timedelta_days 90)) (users s) =
              filter (eligible_donor a now) (users s)"
    if bt: "a_blood_type a = a_blood_type alert" for a
  proof (rule filter_cong [OF refl])
    fix d assume d: "d \<in> set (users s)"
    show "donor_query a (now - timedelta_days 90) d = eligible_donor a now d"
    proof (cases "d_last_donation_date d = Null")
      case False
      then show ?thesis by (rule donor_query_eligible)
    next
      case True
      with dated d bt
      have "\<not> (d_role d = ''donor'' \<and> d_blood_type d = Some (a_blood_type a) \<and> d_is_available d)"
        by auto
      then show ?thesis by (auto simp: donor_query_def eligible_donor_def)
    qed
  qed
  have notified: "map addressee (new_notifications s (notify_matching_donors s a now gen)) =
      map (\<lambda>d. (d_email d, d_name d, a_id a)) (take 100 (filter (eligible_donor a now) (users s)))"
    if "a_blood_type a = a_blood_type alert" for a
    by (simp add: new_notifications_notify addressee_mails_for find_to_list_def same [OF that])
  have created: "map addressee (new_notifications s s') =
      map (\<lambda>d. (d_email d, d_name d, a_id created))
        (take 100 (filter (eligible_donor created now) (users s)))"
    if ok: "create_blood_alert s alert_data cu new_id t_created t_expiry now gen = (Inr created, s')"
      and bt: "ac_blood_type alert_data = a_blood_type alert" for created s'
  proof -
    from ok have s': "s' = notify_matching_donors (s\<lparr>blood_alerts := blood_alerts s @ [created]\<rparr>)
        created now gen" and "a_blood_type created = ac_blood_type alert_data"
      by (auto simp: create_blood_alert_def Let_def split: if_splits option.splits)
    with bt notified [of created] show ?thesis
      by (simp add: new_notifications_stored)
  qed
  have "email_notifications (notify_matching_donors s alert now gen) =
      email_notifications s @ new_notifications s (notify_matching_donors s alert now gen)"
    by (simp add: notify_matching_donors_eq new_notifications_def)
  with notified [of alert] created show ?thesis
    by (simp add: notify_frame)
qed

theorem notify_matching_donors_first_100_witness:
  "map addressee (new_notifications dated_db
       (notify_matching_donors dated_db demo_alert day100 demo_gen)) =
     [(''vera@mail.com'', ''Vera'', ''a1'')] \<and>
   take 100 (filter (eligible_donor demo_alert day100) (users dated_db)) = [veteran_doc] \<and>
   d_last_donation_date veteran_doc = Val 0 \<and>
   d_last_donation_date recent_doc = Val (day100 - timedelta_days 1)"
  using notify_matching_donors_first_100 [where s = dated_db and alert = demo_alert and
      now = day100 and gen = demo_gen]
  by (simp add: demo_defs dated_db_def veteran_doc_def recent_doc_def other_doc_def
      day100_def eligible_donor_def timedelta_days_def)

text \<open>
  With 101 eligible donors stored, 100 notifications are inserted and the last
  donor gets none.
\<close>

theorem notify_matching_donors_cap_counterexample:
  "eligible_donor demo_alert day100 (crowd_donor 100) \<and>
   crowd_donor 100 \<in> set (users crowd_db) \<and>
   d_email (crowd_donor 100) \<notin> e_to_email ` set (new_notifications crowd_db
       (notify_matching_donors crowd_db demo_alert day100 demo_gen)) \<and>
   length (filter (eligible_donor demo_alert day100) (users crowd_db)) = 101 \<and>
   length (new_notifications crowd_db
       (notify_matching_donors crowd_db demo_alert day100 demo_gen)) = 100"
proof -
  have all: "filter (eligible_donor demo_alert day100) (map crowd_donor [0..<101]) =
        map crowd_donor [0..<101]"
    by (rule filter_True) (auto simp: crowd_donor_eligible)
  have "e_to_email ` set (mails_for (map crowd_donor [0..<100]) demo_alert demo_gen 0) =
        set (map e_to_email (mails_for (map crowd_donor [0..<100]) demo_alert demo_gen 0))"
    by simp
  also have "\<dots> = (\<lambda>i. d_email (crowd_donor i)) ` {0..<100}"
    by (simp only: to_email_mails_for) (simp add: image_image)
  finally have "d_email (crowd_donor 100) \<notin>
      e_to_email ` set (mails_for (map crowd_donor [0..<100]) demo_alert demo_gen 0)"
    by (auto dest: crowd_donor_email_inj)
  moreover have "length (mails_for (map crowd_donor [0..<100]) demo_alert demo_gen 0) = 100"
    by (simp add: mails_for_def)
  moreover have us: "users crowd_db = map crowd_donor [0..<101]"
    by (simp add: crowd_db_def)
  moreover have "crowd_donor 100 \<in> set (map crowd_donor [0..<101])"
    by simp
  ultimately show ?thesis
    by (simp add: crowd_notified crowd_donor_eligible all)
qed

text \<open>
  A registration without a donation date stores a null, which neither branch
  of the query's \<^verbatim>\<open>$or\<close> matches: the donor of the scenario, eligible by the
  rule above, is not notified of the alert.
\<close>

lemma register_stores_null:
  assumes "register s user_data hashed new_id t = (Inr r, s')"
    and "reg_last_donation_date user_data = None"
  shows "\<exists>d. users s' = users s @ [d] \<and> d_email d = reg_email user_data \<and>
             d_last_donation_date d = Null"
  using assms by (auto simp: register_def Let_def split: option.splits)

lemma undated_donor_not_notified:
  "run vp empty_db (take 2 scenario) = users_db \<and>
   eligible_donor demo_alert 3002 donor_doc \<and> donor_doc \<in> set (users users_db) \<and>
   create_blood_alert users_db alert_req (User_of_doc staff_doc) ''a1'' 3000 3001 3002 demo_gen =
     (Inr demo_alert, alert_db) \<and>
   new_notifications users_db alert_db = []"
  by (simp add: scenario_users_db demo_defs handler_defs eligible_donor_def
      new_notifications_def)

subsection \<open>Expiry of a new alert\<close>

text \<open>
  C5. \<^verbatim>\<open>create_blood_alert\<close> succeeds exactly for a hospital-staff user with a
  hospital name, and the alert it returns and stores then expires 2 hours
  after the clock reading of the urgency branch when the urgency level is
  \<^verbatim>\<open>critical\<close>, 6 hours after it when \<^verbatim>\<open>high\<close>, and 24 hours after it for
  every other level.
\<close>

theorem create_blood_alert_expiry:
  "((\<exists>alert s'. create_blood_alert s alert_data cu new_id t_created t_expiry t_notify gen =
        (Inr alert, s')) \<longleftrightarrow>
      u_role cu = ''hospital_staff'' \<and> u_hospital_name cu \<noteq> None) \<and>
   (\<forall>alert s'. create_blood_alert s alert_data cu new_id t_created t_expiry t_notify gen =
        (Inr alert, s') \<longrightarrow>
      a_expires_at alert =
        Some (t_expiry + timedelta_hours
               (if ac_urgency_level alert_data = ''critical'' then 2
                else if ac_urgency_level alert_data = ''high'' then 6 else 24)) \<and>
      a_urgency_level alert = ac_urgency_level alert_data \<and>
      a_created_at alert = t_created \<and>
      blood_alerts s' = blood_alerts s @ [alert])"
  by (auto simp: create_blood_alert_def Let_def notify_frame split: if_splits option.splits)

theorem create_blood_alert_expiry_witness:
  "create_blood_alert users_db alert_req (User_of_doc staff_doc) ''a1'' 3000 3001 3002 demo_gen =
     (Inr demo_alert, alert_db) \<and>
   a_expires_at demo_alert = Some (3001 + timedelta_hours 6) \<and>
   blood_alerts alert_db = blood_alerts users_db @ [demo_alert]"
  using create_blood_alert_expiry [of users_db alert_req "User_of_doc staff_doc" "''a1''"
      3000 3001 3002 demo_gen]
  by (simp add: demo_defs handler_defs)

subsection \<open>A donor who accepts becomes unavailable\<close>

text \<open>
  C3. When an authenticated donor's \<^verbatim>\<open>respond_to_alert\<close> call succeeds with the
  response value \<^verbatim>\<open>available\<close>, the user document stored under the donor's id
  has \<^verbatim>\<open>is_available\<close> false afterwards; and when the stored ids are distinct
  (they are \<^verbatim>\<open>uuid4\<close> values), the donor authenticates again as a user
  whose \<^verbatim>\<open>is_available\<close> is false.
\<close>

theorem respond_available_sets_unavailable:
  assumes auth: "get_current_user s tok = Inr cu"
    and ok: "respond_to_alert s alert_id rd cu new_id t1 t2 = (Inr resp, s')"
    and av: "rc_response rd = ''available''"
  shows "(\<exists>d. find_one (\<lambda>d. d_id d = u_id cu) (users s') = Some d \<and> \<not> d_is_available d) \<and>
         (distinct (map d_id (users s)) \<longrightarrow>
            (\<exists>cu'. get_current_user s' tok = Inr cu' \<and> u_id cu' = u_id cu \<and>
                    \<not> u_is_available cu'))"
proof -
  from get_current_user_InrD [OF auth] obtain email d0
    where tok: "tok = Payload (Some email)"
      and f0: "find (\<lambda>d. d_email d = email) (users s) = Some d0"
      and cu: "cu = User_of_doc d0" by blast
  from f0 have d0_in: "d0 \<in> set (users s)" and d0_email: "d_email d0 = email"
    by (auto dest: find_SomeD_split)
  have id0: "u_id cu = d_id d0" by (simp add: cu User_of_doc_simps)
  from d0_in id0 have "find (\<lambda>d. d_id d = u_id cu) (users s) \<noteq> None"
    by (auto simp: find_None_set)
  then obtain d where fd: "find (\<lambda>d. d_id d = u_id cu) (users s) = Some d" by blast
  from find_SomeD_split [OF fd] obtain pre post
    where split: "users s = pre @ d # post" and did: "d_id d = u_id cu"
      and pre: "\<forall>y\<in>set pre. d_id y \<noteq> u_id cu" by blast
  from respond_success_cases [OF ok] av
  have us': "users s' = update_one (\<lambda>d. d_id d = u_id cu) (mark_donated t2) (users s)" by simp
  with split did pre have us'': "users s' = pre @ mark_donated t2 d # post"
    by (simp add: update_one_split)
  have md: "d_id (mark_donated t2 d) = u_id cu" "\<not> d_is_available (mark_donated t2 d)"
    "d_email (mark_donated t2 d) = d_email d"
    by (simp_all add: mark_donated_def did)
  have part1: "\<exists>d. find_one (\<lambda>d. d_id d = u_id cu) (users s') = Some d \<and> \<not> d_is_available d"
    unfolding find_one_def us'' using md pre by (simp add: find_split_eq)
  have part2: "\<exists>cu'. get_current_user s' tok = Inr cu' \<and> u_id cu' = u_id cu \<and> \<not> u_is_available cu'"
    if dist: "distinct (map d_id (users s))"
  proof -
    have "d \<in> set (users s)" using split by simp
    with d0_in did id0 dist have same: "d = d0"
      by (metis distinct_map inj_on_eq_iff)
    have "\<forall>y\<in>set pre. d_email y \<noteq> email"
    proof
      fix y assume y: "y \<in> set pre"
      show "d_email y \<noteq> email"
      proof
        assume "d_email y = email"
        with y obtain z where "find (\<lambda>d. d_email d = email) pre = Some z"
          by (cases "find (\<lambda>d. d_email d = email) pre") (auto simp: find_None_set)
        then have "z \<in> set pre" "find (\<lambda>d. d_email d = email) (users s) = Some z"
          unfolding split by (auto dest: find_SomeD_split simp: find_append_case)
        with f0 pre id0 show False by auto
      qed
    qed
    with md d0_email same
    have "find (\<lambda>d. d_email d = email) (users s') = Some (mark_donated t2 d)"
      unfolding us'' by (simp add: find_split_eq)
    with md show ?thesis
      by (simp add: get_current_user_def find_one_def tok User_of_doc_simps)
  qed
  from part1 part2 show ?thesis by blast
qed

theorem respond_available_sets_unavailable_witness:
  "get_current_user alert_db donor_token = Inr (User_of_doc donor_doc) \<and>
   respond_to_alert alert_db ''a1'' yes (User_of_doc donor_doc) ''r1'' 4000 4001 =
     (Inr (demo_response ''available''), donated_db) \<and>
   rc_response yes = ''available'' \<and> distinct (map d_id (users alert_db)) \<and>
   d_is_available donor_doc \<and>
   find_one (\<lambda>d. d_id d = ''u2'') (users donated_db) = Some (mark_donated 4001 donor_doc) \<and>
   \<not> d_is_available (mark_donated 4001 donor_doc) \<and>
   get_current_user donated_db donor_token = Inr (User_of_doc (mark_donated 4001 donor_doc))"
  using respond_available_sets_unavailable [of alert_db donor_token "User_of_doc donor_doc"
      "''a1''" yes "''r1''" 4000 4001 "demo_response ''available''" donated_db]
  by (simp add: demo_defs handler_defs)

subsection \<open>Alert details are open to every authenticated user\<close>

text \<open>
  C10. For every authenticated user, hospital staff or donor, and every alert
  id present in the store, \<^verbatim>\<open>GET /alerts/{alert_id}\<close> returns the stored alert
  of that id and leaves the store as it is; the result is the same whichever
  user asks, and the route answers 404 exactly when no stored alert has the id.
\<close>

theorem get_alert_details_any_user:
  assumes auth: "get_current_user s tok = Inr cu"
  shows "(alert_id \<in> a_id ` set (blood_alerts s) \<longrightarrow>
            (\<exists>alert. find_one (\<lambda>a. a_id a = alert_id) (blood_alerts s) = Some alert \<and>
                     alert \<in> set (blood_alerts s) \<and> a_id alert = alert_id \<and>
                     handle vp s (GetAlertDetails tok alert_id) = (Inr (AlertReply alert), s))) \<and>
         (status_code (fst (handle vp s (GetAlertDetails tok alert_id))) = 404 \<longleftrightarrow>
            alert_id \<notin> a_id ` set (blood_alerts s)) \<and>
         (alert_id \<notin> a_id ` set (blood_alerts s) \<longrightarrow>
            handle vp s (GetAlertDetails tok alert_id) =
              (Inl (HTTPException 404 ''Alert not found''), s)) \<and>
         get_alert_details s alert_id cu = get_alert_details s alert_id other"
proof (cases "find (\<lambda>a. a_id a = alert_id) (blood_alerts s)")
  case None
  then have "alert_id \<notin> a_id ` set (blood_alerts s)"
    by (auto simp: find_None_set)
  with None auth show ?thesis
    by (simp add: with_user_def as_reply_def get_alert_details_def find_one_def status_code_def)
next
  case (Some alert)
  from find_SomeD_split [OF Some] have "alert \<in> set (blood_alerts s)" "a_id alert = alert_id"
    by auto
  with Some auth show ?thesis
    by (auto simp: with_user_def as_reply_def get_alert_details_def find_one_def status_code_def)
qed

theorem get_alert_details_any_user_witness:
  "get_current_user alert_db donor_token = Inr (User_of_doc donor_doc) \<and>
   ''a1'' \<in> a_id ` set (blood_alerts alert_db) \<and>
   handle demo_verify alert_db (GetAlertDetails donor_token ''a1'') = (Inr (AlertReply demo_alert), alert_db) \<and>
   get_alert_details alert_db ''a1'' (User_of_doc donor_doc) =
     get_alert_details alert_db ''a1'' (User_of_doc staff_doc) \<and>
   ''zz'' \<notin> a_id ` set (blood_alerts alert_db) \<and>
   status_code (fst (handle demo_verify alert_db (GetAlertDetails donor_token ''zz''))) = 404"
  using get_alert_details_any_user [of alert_db donor_token "User_of_doc donor_doc" "''a1''" demo_verify
      "User_of_doc staff_doc"]
    get_alert_details_any_user [of alert_db donor_token "User_of_doc donor_doc" "''zz''" demo_verify
      "User_of_doc staff_doc"]
  by (simp add: demo_defs handler_defs)

subsection \<open>What a successful response changes\<close>

text \<open>
  C8. A successful \<^verbatim>\<open>respond_to_alert\<close> of an authenticated donor leaves every
  alert as it is. With the value \<^verbatim>\<open>available\<close> it changes one user document,
  the first one stored under the donor's id, and there the two fields
  \<^verbatim>\<open>is_available\<close> (now false) and \<^verbatim>\<open>last_donation_date\<close> (now the clock
  reading of the update, which is the time of the response when the clock
  did not move within the request); every other document and every other
  field is as before. With distinct stored ids the changed document is the
  one the donor authenticated as and no other document has that id. The new
  date alone keeps the donor out of the matching query for the next 90 days.
  With any other value the user documents are all unchanged.
\<close>

theorem respond_to_alert_frame:
  assumes auth: "get_current_user s tok = Inr cu"
    and ok: "respond_to_alert s alert_id rd cu new_id t1 t2 = (Inr resp, s')"
  shows "blood_alerts s' = blood_alerts s \<and>
         (rc_response rd \<noteq> ''available'' \<longrightarrow> users s' = users s) \<and>
         (rc_response rd = ''available'' \<longrightarrow>
            (\<exists>pre d post.
               users s = pre @ d # post \<and> d_id d = u_id cu \<and>
               (\<forall>y\<in>set pre. d_id y \<noteq> u_id cu) \<and>
               users s' = pre @ d\<lparr>d_is_available := False,
                                    d_last_donation_date := Val t2\<rparr> # post \<and>
               (t1 = t2 \<longrightarrow> d_last_donation_date (users s' ! length pre) =
                                Val (r_responded_at resp)) \<and>
               (distinct (map d_id (users s)) \<longrightarrow>
                  User_of_doc d = cu \<and> (\<forall>y\<in>set (pre @ post). d_id y \<noteq> u_id cu)) \<and>
               (\<forall>alert now. now \<le> t2 + timedelta_days 90 \<longrightarrow>
                  \<not> donor_query alert (now - timedelta_days 90)
                      (d\<lparr>d_is_available := True, d_last_donation_date := Val t2\<rparr>))))"
proof -
  note facts = respond_success_cases [OF ok]
  from get_current_user_InrD [OF auth] obtain email d0
    where f0: "find (\<lambda>d. d_email d = email) (users s) = Some d0"
      and cu: "cu = User_of_doc d0" by blast
  from f0 have d0_in: "d0 \<in> set (users s)" by (auto dest: find_SomeD_split)
  have id0: "u_id cu = d_id d0" by (simp add: cu User_of_doc_simps)
  from d0_in id0 have "find (\<lambda>d. d_id d = u_id cu) (users s) \<noteq> None"
    by (auto simp: find_None_set)
  then obtain d where fd: "find (\<lambda>d. d_id d = u_id cu) (users s) = Some d" by blast
  from find_SomeD_split [OF fd] obtain pre post
    where split: "users s = pre @ d # post" and did: "d_id d = u_id cu"
      and pre: "\<forall>y\<in>set pre. d_id y \<noteq> u_id cu" by blast
  have upd: "users s' = pre @ d\<lparr>d_is_available := False, d_last_donation_date := Val t2\<rparr> # post"
    if "rc_response rd = ''available''"
    using facts that split did pre by (simp add: update_one_split mark_donated_def)
  have stamp: "d_last_donation_date (users s' ! length pre) = Val (r_responded_at resp)"
    if "rc_response rd = ''available''" "t1 = t2"
    using upd [OF that(1)] facts that(2) by simp
  have uniq: "User_of_doc d = cu \<and> (\<forall>y\<in>set (pre @ post). d_id y \<noteq> u_id cu)"
    if dist: "distinct (map d_id (users s))"
  proof -
    have "d \<in> set (users s)" using split by simp
    with d0_in did id0 dist have "d = d0" by (metis distinct_map inj_on_eq_iff)
    moreover from dist split did have "\<forall>y\<in>set (pre @ post). d_id y \<noteq> u_id cu"
      by (auto simp: image_iff)
    ultimately show ?thesis using cu by simp
  qed
  have cool: "\<not> donor_query alert (now - timedelta_days 90)
                 (d\<lparr>d_is_available := True, d_last_donation_date := Val t2\<rparr>)"
    if "now \<le> t2 + timedelta_days 90" for alert now
    using that by (simp add: donor_query_def)
  from facts have "blood_alerts s' = blood_alerts s"
    and "rc_response rd \<noteq> ''available'' \<longrightarrow> users s' = users s" by simp_all
  moreover have "rc_response rd = ''available'' \<longrightarrow>
      (\<exists>pre d post.
         users s = pre @ d # post \<and> d_id d = u_id cu \<and>
         (\<forall>y\<in>set pre. d_id y \<noteq> u_id cu) \<and>
         users s' = pre @ d\<lparr>d_is_available := False, d_last_donation_date := Val t2\<rparr> # post \<and>
         (t1 = t2 \<longrightarrow> d_last_donation_date (users s' ! length pre) = Val (r_responded_at resp)) \<and>
         (distinct (map d_id (users s)) \<longrightarrow>
            User_of_doc d = cu \<and> (\<forall>y\<in>set (pre @ post). d_id y \<noteq> u_id cu)) \<and>
         (\<forall>alert now. now \<le> t2 + timedelta_days 90 \<longrightarrow>
            \<not> donor_query alert (now - timedelta_days 90)
                (d\<lparr>d_is_available := True, d_last_donation_date := Val t2\<rparr>)))"
    using split did pre upd stamp uniq cool by blast
  ultimately show ?thesis by blast
qed

theorem respond_to_alert_frame_witness:
  "get_current_user alert_db donor_token = Inr (User_of_doc donor_doc) \<and>
   respond_to_alert alert_db ''a1'' yes (User_of_doc donor_doc) ''r1'' 4000 4001 =
     (Inr (demo_response ''available''), donated_db) \<and>
   rc_response yes = ''available'' \<and>
   users alert_db = [staff_doc] @ donor_doc # [] \<and>
   users donated_db =
     [staff_doc] @ donor_doc\<lparr>d_is_available := False, d_last_donation_date := Val 4001\<rparr> # [] \<and>
   blood_alerts donated_db = blood_alerts alert_db \<and>
   respond_to_alert alert_db ''a1'' maybe (User_of_doc donor_doc) ''r1'' 4000 4001 =
     (Inr (demo_response ''maybe''), answered_db ''maybe'') \<and>
   rc_response maybe \<noteq> ''available'' \<and>
   users (answered_db ''maybe'') = users alert_db"
  using respond_to_alert_frame [of alert_db donor_token "User_of_doc donor_doc" "''a1''" yes
      "''r1''" 4000 4001 "demo_response ''available''" donated_db]
    respond_to_alert_frame [of alert_db donor_token "User_of_doc donor_doc" "''a1''" maybe
      "''r1''" 4000 4001 "demo_response ''maybe''" "answered_db ''maybe''"]
  by (simp add: demo_defs handler_defs)

subsection \<open>One response per donor and alert\<close>






subsection \<open>Stored alerts are never touched\<close>

text \<open>
  C4. Whatever requests the service handles (registration, login, alert
  creation, alert listing, alert detail, donor response, response listing,
  dashboard, e-mail listing), the alerts stored at any moment stay, unchanged
  and in place, in every later store: in particular each keeps the
  \<^verbatim>\<open>status\<close> and the \<^verbatim>\<open>expires_at\<close> it was stored with. Every alert of a
  store reached from the empty one has the status \<^verbatim>\<open>active\<close>.
\<close>

theorem alert_status_and_expiry_never_change:
  "prefix (blood_alerts (run vp s reqs)) (blood_alerts (run vp s (reqs @ later))) \<and>
   (\<forall>i < length (blood_alerts (run vp s reqs)).
      a_status (blood_alerts (run vp s (reqs @ later)) ! i) =
        a_status (blood_alerts (run vp s reqs) ! i) \<and>
      a_expires_at (blood_alerts (run vp s (reqs @ later)) ! i) =
        a_expires_at (blood_alerts (run vp s reqs) ! i)) \<and>
   (\<forall>a\<in>set (blood_alerts (run vp empty_db reqs)). a_status a = ''active'')"
proof -
  have pre: "prefix (blood_alerts (run vp s reqs)) (blood_alerts (run vp s (reqs @ later)))"
    by (simp add: run_append run_alerts_prefix)
  then obtain new where "blood_alerts (run vp s (reqs @ later)) = blood_alerts (run vp s reqs) @ new"
    by (auto simp: prefix_def)
  then have "\<forall>i < length (blood_alerts (run vp s reqs)).
      blood_alerts (run vp s (reqs @ later)) ! i = blood_alerts (run vp s reqs) ! i"
    by (simp add: nth_append)
  moreover have "\<forall>a\<in>set (blood_alerts (run vp empty_db reqs)). a_status a = ''active''"
    by (rule run_alerts_active) (simp add: empty_db_def)
  ultimately show ?thesis using pre by simp
qed

theorem alert_status_and_expiry_never_change_witness:
  "blood_alerts (run demo_verify empty_db (take 3 scenario)) = [demo_alert] \<and>
   blood_alerts (run demo_verify empty_db (take 3 scenario @ drop 3 scenario)) = [demo_alert] \<and>
   a_status demo_alert = ''active'' \<and> a_expires_at demo_alert = Some (3001 + timedelta_hours 6)"
  using alert_status_and_expiry_never_change [of demo_verify empty_db "take 3 scenario" "drop 3 scenario"]
  by (simp add: scenario_alert_db scenario_answered_db demo_defs timedelta_hours_def)

subsection \<open>Expiry is stored and never read\<close>

text \<open>
  C7. A donor's response to an existing alert that the donor has not answered
  yet succeeds, whatever the alert's \<^verbatim>\<open>status\<close> and \<^verbatim>\<open>expires_at\<close> and
  whatever the clock shows. \<^verbatim>\<open>respond_to_alert\<close> reads nothing of the stored
  alerts but their ids. And no route reads an expiry date: two stores that
  differ only in the \<^verbatim>\<open>expires_at\<close> of their alerts give, for every request,
  the same reply and the same next store, up to those dates again.
\<close>

theorem expiry_is_never_checked:
  "(u_role cu = ''donor'' \<and> find_one (\<lambda>a. a_id a = alert_id) (blood_alerts s) = Some alert \<and>
    (alert_id, u_id cu) \<notin> (\<lambda>r. (r_alert_id r, r_donor_id r)) ` set (donor_responses s) \<longrightarrow>
      (\<exists>resp s'. respond_to_alert s alert_id rd cu new_id t1 t2 = (Inr resp, s'))) \<and>
   (users s1 = users s2 \<and> donor_responses s1 = donor_responses s2 \<and>
    map a_id (blood_alerts s1) = map a_id (blood_alerts s2) \<longrightarrow>
      fst (respond_to_alert s1 alert_id rd cu new_id t1 t2) =
        fst (respond_to_alert s2 alert_id rd cu new_id t1 t2) \<and>
      users (snd (respond_to_alert s1 alert_id rd cu new_id t1 t2)) =
        users (snd (respond_to_alert s2 alert_id rd cu new_id t1 t2)) \<and>
      donor_responses (snd (respond_to_alert s1 alert_id rd cu new_id t1 t2)) =
        donor_responses (snd (respond_to_alert s2 alert_id rd cu new_id t1 t2))) \<and>
   (forget_expiry_db s1 = forget_expiry_db s2 \<longrightarrow>
      forget_expiry_out (handle vp s1 req) = forget_expiry_out (handle vp s2 req))"
proof -
  have succeeds: "\<exists>resp s'. respond_to_alert s alert_id rd cu new_id t1 t2 = (Inr resp, s')"
    if "u_role cu = ''donor''"
      and "find_one (\<lambda>a. a_id a = alert_id) (blood_alerts s) = Some alert"
      and "(alert_id, u_id cu) \<notin> (\<lambda>r. (r_alert_id r, r_donor_id r)) ` set (donor_responses s)"
  proof -
    from that(3)
    have "find (\<lambda>r. r_alert_id r = alert_id \<and> r_donor_id r = u_id cu) (donor_responses s) = None"
      by (force simp: find_None_set)
    with that(1,2) show ?thesis
      by (simp add: respond_to_alert_def find_one_def Let_def)
  qed
  have ids: "(find (\<lambda>a. a_id a = alert_id) xs = None) = (alert_id \<notin> set (map a_id xs))"
    for xs :: "BloodAlert list"
    by (auto simp: find_None_set)
  have by_ids:
    "fst (respond_to_alert s1 alert_id rd cu new_id t1 t2) =
       fst (respond_to_alert s2 alert_id rd cu new_id t1 t2) \<and>
     users (snd (respond_to_alert s1 alert_id rd cu new_id t1 t2)) =
       users (snd (respond_to_alert s2 alert_id rd cu new_id t1 t2)) \<and>
     donor_responses (snd (respond_to_alert s1 alert_id rd cu new_id t1 t2)) =
       donor_responses (snd (respond_to_alert s2 alert_id rd cu new_id t1 t2))"
    if "users s1 = users s2" "donor_responses s1 = donor_responses s2"
      "map a_id (blood_alerts s1) = map a_id (blood_alerts s2)"
  proof -
    from that(3) ids [of "blood_alerts s1"] ids [of "blood_alerts s2"]
    have "(find (\<lambda>a. a_id a = alert_id) (blood_alerts s1) = None) =
          (find (\<lambda>a. a_id a = alert_id) (blood_alerts s2) = None)" by simp
    with that(1,2) show ?thesis
      by (auto simp: respond_to_alert_def find_one_def Let_def split: option.splits)
  qed
  have "forget_expiry_out (handle vp s1 req) = forget_expiry_out (handle vp s2 req)"
    if "forget_expiry_db s1 = forget_expiry_db s2"
    using handle_forget [of vp s1 req] handle_forget [of vp s2 req] that by simp
  with succeeds by_ids show ?thesis by blast
qed

theorem expiry_is_never_checked_witness:
  "u_role (User_of_doc donor_doc) = ''donor'' \<and>
   find_one (\<lambda>a. a_id a = ''a1'') (blood_alerts expired_db) =
     Some (demo_alert\<lparr>a_status := ''cancelled'', a_expires_at := Some 10\<rparr>) \<and>
   (''a1'', u_id (User_of_doc donor_doc)) \<notin>
     (\<lambda>r. (r_alert_id r, r_donor_id r)) ` set (donor_responses expired_db) \<and>
   fst (respond_to_alert expired_db ''a1'' yes (User_of_doc donor_doc) ''r1'' 4000 4001) =
     Inr (demo_response ''available'') \<and>
   map a_id (blood_alerts expired_db) = map a_id (blood_alerts alert_db) \<and>
   forget_expiry_db expired_db = forget_expiry_db cancelled_db \<and>
   forget_expiry_out (handle demo_verify expired_db (RespondToAlert donor_token ''a1'' yes ''r1'' 4000 4001)) =
     forget_expiry_out (handle demo_verify cancelled_db (RespondToAlert donor_token ''a1'' yes ''r1'' 4000 4001))"
  using expiry_is_never_checked [where cu = "User_of_doc donor_doc" and alert_id = "''a1''" and
      s = expired_db and alert = "demo_alert\<lparr>a_status := ''cancelled'', a_expires_at := Some 10\<rparr>"
      and rd = yes and new_id = "''r1''" and ?t1.0 = 4000 and ?t2.0 = 4001 and
      ?s1.0 = expired_db and ?s2.0 = cancelled_db and vp = demo_verify and
      req = "RespondToAlert donor_token ''a1'' yes ''r1'' 4000 4001"]
  by (simp add: demo_defs handler_defs expired_db_def cancelled_db_def forget_expiry_db_def
      forget_expiry_def)

subsection \<open>The response value is not validated\<close>

text \<open>
  C9. For every string, a donor's first response to an existing alert
  succeeds and the stored \<^verbatim>\<open>DonorResponse\<close> carries the string as given.
  The user documents change only when the string is exactly \<^verbatim>\<open>available\<close>.
  So the hospital dashboard can report more responses in total than it
  reports as \<^verbatim>\<open>available\<close> and \<^verbatim>\<open>not_available\<close> together: it does after the
  scenario, where the donor answers \<^verbatim>\<open>maybe\<close>.
\<close>

theorem response_value_unvalidated:
  "(u_role cu = ''donor'' \<and> alert_id \<in> a_id ` set (blood_alerts s) \<and>
    (alert_id, u_id cu) \<notin> (\<lambda>r. (r_alert_id r, r_donor_id r)) ` set (donor_responses s) \<longrightarrow>
      (\<exists>resp s'. respond_to_alert s alert_id rd cu new_id t1 t2 = (Inr resp, s') \<and>
         r_response resp = rc_response rd \<and>
         donor_responses s' = donor_responses s @ [resp] \<and>
         (rc_response rd \<noteq> ''available'' \<longrightarrow> users s' = users s) \<and>
         (rc_response rd = ''available'' \<longrightarrow>
            users s' = update_one (\<lambda>d. d_id d = u_id cu) (mark_donated t2) (users s)))) \<and>
   (\<exists>reqs who. u_role who = ''hospital_staff'' \<and>
      get_current_user (run vp empty_db reqs) staff_token = Inr who \<and>
      total_responses (get_dashboard_stats (run vp empty_db reqs) who) >
        available_responses (get_dashboard_stats (run vp empty_db reqs) who) +
        not_available_responses (get_dashboard_stats (run vp empty_db reqs) who))"
proof -
  have first: "\<exists>resp s'. respond_to_alert s alert_id rd cu new_id t1 t2 = (Inr resp, s') \<and>
         r_response resp = rc_response rd \<and>
         donor_responses s' = donor_responses s @ [resp] \<and>
         (rc_response rd \<noteq> ''available'' \<longrightarrow> users s' = users s) \<and>
         (rc_response rd = ''available'' \<longrightarrow>
            users s' = update_one (\<lambda>d. d_id d = u_id cu) (mark_donated t2) (users s))"
    if donor: "u_role cu = ''donor''" and ex: "alert_id \<in> a_id ` set (blood_alerts s)"
      and fresh: "(alert_id, u_id cu) \<notin> (\<lambda>r. (r_alert_id r, r_donor_id r)) ` set (donor_responses s)"
  proof -
    from ex obtain alert where "find (\<lambda>a. a_id a = alert_id) (blood_alerts s) = Some alert"
      by (cases "find (\<lambda>a. a_id a = alert_id) (blood_alerts s)") (auto simp: find_None_set)
    moreover from fresh
    have "find (\<lambda>r. r_alert_id r = alert_id \<and> r_donor_id r = u_id cu) (donor_responses s) = None"
      by (force simp: find_None_set)
    ultimately obtain resp s'
      where ok: "respond_to_alert s alert_id rd cu new_id t1 t2 = (Inr resp, s')"
      using donor by (simp add: respond_to_alert_def find_one_def Let_def)
    from respond_success_cases [OF ok] ok show ?thesis by simp
  qed
  have "u_role (User_of_doc staff_doc) = ''hospital_staff'' \<and>
      get_current_user (run vp empty_db scenario) staff_token = Inr (User_of_doc staff_doc) \<and>
      get_dashboard_stats (run vp empty_db scenario) (User_of_doc staff_doc) =
        HospitalStats 1 1 1 0 0"
    by (simp add: scenario_answered_db demo_defs handler_defs get_dashboard_stats_def
        response_groups_def dict_get_def count_documents_def)
  then have "\<exists>reqs who. u_role who = ''hospital_staff'' \<and>
      get_current_user (run vp empty_db reqs) staff_token = Inr who \<and>
      total_responses (get_dashboard_stats (run vp empty_db reqs) who) >
        available_responses (get_dashboard_stats (run vp empty_db reqs) who) +
        not_available_responses (get_dashboard_stats (run vp empty_db reqs) who)"
    by (intro exI [of _ scenario] exI [of _ "User_of_doc staff_doc"]) simp
  with first show ?thesis by blast
qed

theorem response_value_unvalidated_witness:
  "u_role (User_of_doc donor_doc) = ''donor'' \<and>
   ''a1'' \<in> a_id ` set (blood_alerts alert_db) \<and>
   (''a1'', u_id (User_of_doc donor_doc)) \<notin>
     (\<lambda>r. (r_alert_id r, r_donor_id r)) ` set (donor_responses alert_db) \<and>
   respond_to_alert alert_db ''a1'' maybe (User_of_doc donor_doc) ''r1'' 4000 4001 =
     (Inr (demo_response ''maybe''), answered_db ''maybe'') \<and>
   r_response (demo_response ''maybe'') = ''maybe'' \<and>
   users (answered_db ''maybe'') = users alert_db \<and>
   get_dashboard_stats (answered_db ''maybe'') (User_of_doc staff_doc) = HospitalStats 1 1 1 0 0"
  using response_value_unvalidated [where cu = "User_of_doc donor_doc" and alert_id = "''a1''"
      and s = alert_db and rd = maybe and new_id = "''r1''" and ?t1.0 = 4000 and ?t2.0 = 4001
      and vp = demo_verify]
  by (simp add: demo_defs handler_defs get_dashboard_stats_def
      response_groups_def dict_get_def count_documents_def)

subsection \<open>Matching ignores places\<close>

text \<open>
  C6. Every alert \<^verbatim>\<open>create_blood_alert\<close> returns has the location
  \<^verbatim>\<open>{"type": "Point", "coordinates": [0, 0]}\<close>. The notifications inserted by
  \<^verbatim>\<open>notify_matching_donors\<close>, and so by \<^verbatim>\<open>create_blood_alert\<close>, are the same,
  record for record, on two stores whose users differ only in their
  \<^verbatim>\<open>latitude\<close>, \<^verbatim>\<open>longitude\<close> and \<^verbatim>\<open>location\<close> fields and for two alerts that
  differ only in \<^verbatim>\<open>radius_km\<close>. (The source never calls
  \<^verbatim>\<open>calculate_distance\<close>, which therefore has no counterpart here.)
\<close>

theorem matching_ignores_location_and_radius:
  "(\<forall>alert s'. create_blood_alert s alert_data cu new_id t_created t_expiry now gen = (Inr alert, s')
      \<longrightarrow> a_location alert = Point [0, 0]) \<and>
   (map forget_location (users s1) = map forget_location (users s2) \<longrightarrow>
      new_notifications s1 (notify_matching_donors s1 alert now gen) =
        new_notifications s2 (notify_matching_donors s2 (alert\<lparr>a_radius_km := r\<rparr>) now gen) \<and>
      new_notifications s1
        (snd (create_blood_alert s1 alert_data cu new_id t_created t_expiry now gen)) =
      new_notifications s2
        (snd (create_blood_alert s2 (alert_data\<lparr>ac_radius_km := r\<rparr>) cu new_id t_created
               t_expiry now gen)))"
proof -
  have loc: "a_location alert = Point [0, 0]"
    if "create_blood_alert s alert_data cu new_id t_created t_expiry now gen = (Inr alert, s')"
    for alert s'
    using that by (auto simp: create_blood_alert_def Let_def split: if_splits option.splits)
  have created: "new_notifications s1
        (snd (create_blood_alert s1 alert_data cu new_id t_created t_expiry now gen)) =
      new_notifications s2
        (snd (create_blood_alert s2 (alert_data\<lparr>ac_radius_km := r\<rparr>) cu new_id t_created
               t_expiry now gen))"
    if same: "map forget_location (users s1) = map forget_location (users s2)"
    using notify_location_radius [OF same, of _ now gen r]
    by (simp add: create_blood_alert_def Let_def new_notifications_stored split: option.splits)
  from loc created notify_location_radius show ?thesis by blast
qed

theorem matching_ignores_location_and_radius_witness:
  "map forget_location (users dated_db) = map forget_location (users moved_db) \<and>
   users dated_db \<noteq> users moved_db \<and>
   map addressee (new_notifications dated_db
       (notify_matching_donors dated_db demo_alert day100 demo_gen)) =
     [(''vera@mail.com'', ''Vera'', ''a1'')] \<and>
   new_notifications moved_db
       (notify_matching_donors moved_db (demo_alert\<lparr>a_radius_km := 5\<rparr>) day100 demo_gen) =
     new_notifications dated_db (notify_matching_donors dated_db demo_alert day100 demo_gen) \<and>
   create_blood_alert dated_db alert_req (User_of_doc staff_doc) ''a1'' 3000 3001 day100 demo_gen =
     (Inr demo_alert, notify_matching_donors (dated_db\<lparr>blood_alerts := [demo_alert]\<rparr>)
        demo_alert day100 demo_gen) \<and>
   a_location demo_alert = Point [0, 0]"
  using matching_ignores_location_and_radius [where s = dated_db and alert_data = alert_req and
      cu = "User_of_doc staff_doc" and new_id = "''a1''" and t_created = 3000 and
      t_expiry = 3001 and now = day100 and gen = demo_gen and ?s1.0 = dated_db and
      ?s2.0 = moved_db and alert = demo_alert and r = 5]
  by (simp add: demo_defs dated_db_def moved_db_def veteran_doc_def recent_doc_def other_doc_def
      day100_def forget_location_def addressee_def new_notifications_def
      create_blood_alert_def User_of_doc_def timedelta_hours_def
      notify_matching_donors_eq find_to_list_def donor_query_def timedelta_days_def
      mails_for_def mock_email_fields Let_def mock_email_radius)

end
